theory Spec2Isabelle
  imports Main "HOL-Library.AList"
begin

section \<open>The extension lifecycle manager of \<^verbatim>\<open>extension_api.py\<close>\<close>

text \<open>
  The class \<^verbatim>\<open>ExtensionAPI\<close> keeps no state of its own: every method reads and
  changes the directory tree below \<^verbatim>\<open>sd_path\<close>. The embedding passes that tree
  explicitly (type \<open>filesystem\<close>) and returns it updated. An exception is a value of
  type \<open>exn\<close>; a step that can raise returns \<open>exn + 'a\<close>, \<open>Inl\<close> being the raise.

  Scope of the model.
  \<^item> An extension identifier is the name of an entry of the extensions directory, so
    \<^verbatim>\<open>os.path.join(self.extensions_path, extension_id)\<close> is the entry called
    \<open>extension_id\<close>. This is what the code does for a name that is one path component
    (\<open>filesystem_safe\<close>); names are compared exactly.
  \<^item> A call into a library (\<^verbatim>\<open>shutil\<close>, \<^verbatim>\<open>os\<close>, \<^verbatim>\<open>git\<close>, \<^verbatim>\<open>requests\<close>,
    \<^verbatim>\<open>zipfile\<close>, \<^verbatim>\<open>subprocess\<close>) is one step. What the world outside the program
    decides (the clock, whether a copy runs out of disk, what a repository holds, how a
    script exits) is read from a record \<open>env\<close>.
  \<^item> A call that raises may have done part of its work: a copy, a removal, a clone, a
    checkout, an extraction or a write that fails leaves behind what it had written (or
    had not yet deleted) at that moment. That is read from \<open>env\<close> as well: a fault is
    the error text with what stands at the path afterwards, \<open>None\<close> for a call that
    failed before it touched anything. \<^verbatim>\<open>os.rename\<close> and \<^verbatim>\<open>os.remove\<close> happen as a
    whole or not at all.
  \<^item> Reading the tree (\<^verbatim>\<open>exists\<close>, \<^verbatim>\<open>isdir\<close>, \<^verbatim>\<open>listdir\<close>) depends on the tree alone.
  \<^item> Console output (\<^verbatim>\<open>print\<close>) is not part of the state.
\<close>

subsection \<open>Strings\<close>

text \<open>\<^verbatim>\<open>s.startswith(p)\<close>\<close>

definition startswith :: "string \<Rightarrow> string \<Rightarrow> bool" where
  "startswith s p = (take (length p) s = p)"

text \<open>\<^verbatim>\<open>str(n)\<close> of a natural number, in decimal.\<close>

definition digit_char :: "nat \<Rightarrow> char" where
  "digit_char d = ''0123456789'' ! d"

fun str_nat :: "nat \<Rightarrow> string" where
  "str_nat n = (if n < 10 then [digit_char n] else str_nat (n div 10) @ [digit_char (n mod 10)])"

declare str_nat.simps [simp del]

text \<open>\<^verbatim>\<open>s.zfill(w)\<close>: the padding of the numeric fields of \<^verbatim>\<open>strftime\<close>.\<close>

definition zfill :: "nat \<Rightarrow> string \<Rightarrow> string" where
  "zfill w s = replicate (w - length s) (CHR ''0'') @ s"

text \<open>
  A name that is one path component: not empty, not \<^verbatim>\<open>.\<close> or \<^verbatim>\<open>..\<close>, and free of
  path separators and of the NUL character.
\<close>

definition filesystem_safe :: "string \<Rightarrow> bool" where
  "filesystem_safe s =
     (s \<noteq> [] \<and> s \<noteq> ''.'' \<and> s \<noteq> ''..'' \<and>
      CHR ''/'' \<notin> set s \<and> CHR 0x5C \<notin> set s \<and> CHR 0x00 \<notin> set s)"

subsection \<open>The directory tree\<close>

datatype node = File string | Dir "(string \<times> node) list"

type_synonym directory = "(string \<times> node) list"

text \<open>
  \<open>extensions_dir\<close> is what stands at \<^verbatim>\<open>self.extensions_path\<close> (nothing, a file or
  a directory); \<open>backup_dir\<close> and \<open>temp_dir\<close> are the entries of
  \<^verbatim>\<open>self.backup_path\<close> and \<^verbatim>\<open>self.temp_path\<close>, which \<^verbatim>\<open>__init__\<close> creates.
\<close>

record filesystem =
  extensions_dir :: "node option"
  backup_dir :: directory
  temp_dir :: directory

definition entries :: "node option \<Rightarrow> directory" where
  "entries root = (case root of Some (Dir es) \<Rightarrow> es | _ \<Rightarrow> [])"

text \<open>The entry \<open>name\<close> of the extensions directory, if there is one.\<close>

definition lookup_entry :: "filesystem \<Rightarrow> string \<Rightarrow> node option" where
  "lookup_entry fs name = map_of (entries (extensions_dir fs)) name"

text \<open>\<^verbatim>\<open>os.path.exists(os.path.join(self.extensions_path, name))\<close>\<close>

definition os_path_exists :: "filesystem \<Rightarrow> string \<Rightarrow> bool" where
  "os_path_exists fs name = (lookup_entry fs name \<noteq> None)"

fun is_dir :: "node option \<Rightarrow> bool" where
  "is_dir (Some (Dir es)) = True"
| "is_dir _ = False"

subsection \<open>Exceptions\<close>

datatype oserror =
    FileNotFoundError | FileExistsError | NotADirectoryError | IsADirectoryError
  | DirectoryNotEmpty

text \<open>
  \<open>OSError k text\<close> is raised by a file operation because of the tree itself;
  \<open>HTTPException status detail\<close> by the code; \<open>TimeoutExpired\<close> and
  \<open>CalledProcessError\<close> by \<^verbatim>\<open>subprocess.run\<close>; \<open>OtherException text\<close> is any other
  instance of \<^verbatim>\<open>Exception\<close> a library call raises. The string is \<^verbatim>\<open>str(e)\<close>.
\<close>

datatype exn =
    HTTPException nat string
  | OSError oserror string
  | TimeoutExpired string
  | CalledProcessError string
  | OtherException string

text \<open>\<^verbatim>\<open>str(e)\<close>; an \<^verbatim>\<open>HTTPException\<close> prints as \<^verbatim>\<open>f"{status_code}: {detail}"\<close>.\<close>

fun str_exn :: "exn \<Rightarrow> string" where
  "str_exn (HTTPException status detail) = str_nat status @ '': '' @ detail"
| "str_exn (OSError k text) = text"
| "str_exn (TimeoutExpired text) = text"
| "str_exn (CalledProcessError text) = text"
| "str_exn (OtherException text) = text"

subsection \<open>The world outside the program\<close>

datatype platform = Posix | Windows

record datetime =
  year :: nat
  month :: nat
  day :: nat
  hour :: nat
  minute :: nat
  second :: nat
  microsecond :: nat

text \<open>
  \<^item> \<open>now\<close>: \<^verbatim>\<open>datetime.now()\<close>; \<open>strerror\<close>: the text of an error of the tree;
  \<^item> \<open>rename_fault\<close>, \<open>remove_fault\<close>: the error text when the operating system
    refuses the operation (permission denied, file in use), \<open>None\<close> when it does not;
  \<^item> \<open>copytree_fault\<close>, \<open>rmtree_fault\<close>, \<open>write_fault\<close>: when the operation fails
    (disk full, permission denied, a file that cannot be read or deleted), the error
    text and what the failed call leaves at its path: for a copy the part of the
    backup it wrote, for a removal what it did not delete, for a write the part of
    the file it wrote; \<open>None\<close> in that place when it leaves the path as it was;
  \<^item> \<open>clone_from url\<close>: the tree \<^verbatim>\<open>git.Repo.clone_from\<close> checks out, or its error
    with what the failed clone leaves at the target (\<^verbatim>\<open>git\<close> removes the directory
    when the transfer fails, and leaves it when the checkout after the transfer fails);
  \<^item> \<open>git_checkout v t\<close>: the tree after \<^verbatim>\<open>repo.git.checkout(v)\<close>, or its error with
    the tree a failed checkout leaves;
  \<^item> \<open>requests_get url\<close>: the body of the response, or the error of the transfer;
  \<^item> \<open>temp_file_name\<close>: \<^verbatim>\<open>f"download_{datetime.now().timestamp()}.zip"\<close>;
  \<^item> \<open>extractall archive old\<close>: what stands at the target after the archive is
    extracted over \<open>old\<close>, or the error with what a failed extraction leaves there;
  \<^item> \<open>subprocess_run name fs\<close>: the run of \<^verbatim>\<open>install.py\<close> of extension \<open>name\<close>: how it
    ends and the tree it leaves;
  \<^item> \<open>head_hexsha name\<close>: the hash of the newest commit of the checkout in extension
    \<open>name\<close> (\<open>None\<close>: no commit), or the error of \<^verbatim>\<open>git.Repo\<close>;
  \<^item> \<open>getctime_iso name\<close>: the creation time of the directory, in ISO format;
  \<^item> \<open>ext_path_of name\<close>: the string \<^verbatim>\<open>os.path.join(self.extensions_path, name)\<close>.
\<close>

record env =
  platform :: platform
  now :: datetime
  strerror :: "oserror \<Rightarrow> string"
  copytree_fault :: "(string \<times> node option) option"
  rmtree_fault :: "(string \<times> node option) option"
  rename_fault :: "string option"
  write_fault :: "(string \<times> string option) option"
  remove_fault :: "string option"
  clone_from :: "string \<Rightarrow> (string \<times> node option) + node"
  git_checkout :: "string \<Rightarrow> node \<Rightarrow> (string \<times> node option) + node"
  requests_get :: "string \<Rightarrow> string + string"
  temp_file_name :: string
  extractall :: "string \<Rightarrow> node option \<Rightarrow> (string \<times> node option) + node"
  subprocess_run :: "string \<Rightarrow> filesystem \<Rightarrow> (exn + unit) \<times> filesystem"
  head_hexsha :: "string \<Rightarrow> string + string option"
  getctime_iso :: "string \<Rightarrow> string"
  ext_path_of :: "string \<Rightarrow> string"

definition os_error :: "env \<Rightarrow> oserror \<Rightarrow> exn" where
  "os_error env k = OSError k (strerror env k)"

text \<open>\<^verbatim>\<open>datetime.strftime("%Y%m%d_%H%M%S")\<close>\<close>

definition strftime :: "datetime \<Rightarrow> string" where
  "strftime dt =
     zfill 4 (str_nat (year dt)) @ zfill 2 (str_nat (month dt)) @ zfill 2 (str_nat (day dt)) @
     ''_'' @
     zfill 2 (str_nat (hour dt)) @ zfill 2 (str_nat (minute dt)) @ zfill 2 (str_nat (second dt))"

subsection \<open>File operations on the tree\<close>

text \<open>
  A library call materialises \<open>n\<close> at entry \<open>name\<close> of the extensions directory,
  creating that directory when it is missing (\<^verbatim>\<open>git clone\<close> and
  \<^verbatim>\<open>ZipFile.extractall\<close> create leading directories).
\<close>

definition set_entry :: "filesystem \<Rightarrow> string \<Rightarrow> node \<Rightarrow> filesystem" where
  "set_entry fs name n =
     fs\<lparr>extensions_dir := Some (Dir (AList.update name n (entries (extensions_dir fs))))\<rparr>"

definition put_entry :: "env \<Rightarrow> filesystem \<Rightarrow> string \<Rightarrow> node \<Rightarrow> exn + filesystem" where
  "put_entry env fs name n =
     (case extensions_dir fs of
        Some (File content) \<Rightarrow> Inl (os_error env NotADirectoryError)
      | _ \<Rightarrow> Inr (set_entry fs name n))"

text \<open>
  The tree after a call that failed at entry \<open>name\<close> of the extensions directory and
  left \<open>residue\<close> there: as before when it left nothing of its own.
\<close>

definition left_behind :: "env \<Rightarrow> filesystem \<Rightarrow> string \<Rightarrow> node option \<Rightarrow> filesystem" where
  "left_behind env fs name residue =
     (case residue of
        None \<Rightarrow> fs
      | Some n \<Rightarrow> (case put_entry env fs name n of Inl e \<Rightarrow> fs | Inr fs' \<Rightarrow> fs'))"

text \<open>
  \<^verbatim>\<open>shutil.copytree(src, os.path.join(self.backup_path, name))\<close>, returning the backup
  directory as the call leaves it. The source must be a directory and the destination
  must not exist: these are found before anything is written. A copy that fails later
  has created the destination and leaves there what it copied.
\<close>

definition shutil_copytree ::
  "env \<Rightarrow> node \<Rightarrow> directory \<Rightarrow> string \<Rightarrow> (exn + unit) \<times> directory" where
  "shutil_copytree env src dst name =
     (case src of
        File content \<Rightarrow> (Inl (os_error env NotADirectoryError), dst)
      | Dir children \<Rightarrow>
          if map_of dst name \<noteq> None then (Inl (os_error env FileExistsError), dst)
          else (case copytree_fault env of
                  Some (text, residue) \<Rightarrow>
                    (Inl (OtherException text),
                     case residue of
                       None \<Rightarrow> dst
                     | Some partial \<Rightarrow> AList.update name partial dst)
                | None \<Rightarrow> (Inr (), AList.update name src dst)))"

text \<open>
  \<^verbatim>\<open>shutil.rmtree(os.path.join(self.extensions_path, name))\<close>. A removal that fails has
  deleted what it visited before: the entry is left with the rest.
\<close>

definition shutil_rmtree :: "env \<Rightarrow> filesystem \<Rightarrow> string \<Rightarrow> (exn + unit) \<times> filesystem" where
  "shutil_rmtree env fs name =
     (case lookup_entry fs name of
        None \<Rightarrow> (Inl (os_error env FileNotFoundError), fs)
      | Some (File content) \<Rightarrow> (Inl (os_error env NotADirectoryError), fs)
      | Some (Dir children) \<Rightarrow>
          (case rmtree_fault env of
             Some (text, residue) \<Rightarrow>
               (Inl (OtherException text), left_behind env fs name residue)
           | None \<Rightarrow>
               (Inr (), fs\<lparr>extensions_dir :=
                          Some (Dir (AList.delete name (entries (extensions_dir fs))))\<rparr>)))"

text \<open>
  What \<^verbatim>\<open>os.rename\<close> finds at the destination \<open>dst\<close>. The empty name, \<^verbatim>\<open>.\<close> and
  \<^verbatim>\<open>..\<close> (what is left of \<^verbatim>\<open>disabled_\<close>, \<^verbatim>\<open>disabled_.\<close> and \<^verbatim>\<open>disabled_..\<close>
  without the prefix) are the extensions directory and its parent: directories that are
  not empty, as one holds the source and the other the extensions directory.
\<close>

definition rename_target :: "filesystem \<Rightarrow> string \<Rightarrow> string \<Rightarrow> node option" where
  "rename_target fs src dst =
     (if dst = [] \<or> dst = ''.'' \<or> dst = ''..''
      then Some (Dir [(src, File [])])
      else lookup_entry fs dst)"

text \<open>
  \<^verbatim>\<open>os.rename(src, dst)\<close>, both below the extensions directory. The source must exist.
  On Windows an existing destination is refused; elsewhere a directory replaces an empty
  directory, a file replaces a file, and every other existing destination is refused.
\<close>

definition os_rename :: "env \<Rightarrow> filesystem \<Rightarrow> string \<Rightarrow> string \<Rightarrow> exn + filesystem" where
  "os_rename env fs src dst =
     (case lookup_entry fs src of
        None \<Rightarrow> Inl (os_error env FileNotFoundError)
      | Some n \<Rightarrow>
          (let moved = fs\<lparr>extensions_dir :=
                 Some (Dir (AList.update dst n (AList.delete src (entries (extensions_dir fs)))))\<rparr>;
               attempt = (case rename_fault env of
                            Some text \<Rightarrow> Inl (OtherException text)
                          | None \<Rightarrow> Inr moved)
           in case rename_target fs src dst of
                None \<Rightarrow> attempt
              | Some d \<Rightarrow>
                  (case platform env of
                     Windows \<Rightarrow> Inl (os_error env FileExistsError)
                   | Posix \<Rightarrow>
                       (case (n, d) of
                          (Dir a, Dir []) \<Rightarrow> attempt
                        | (Dir a, Dir (b # bs)) \<Rightarrow> Inl (os_error env DirectoryNotEmpty)
                        | (Dir a, File c) \<Rightarrow> Inl (os_error env NotADirectoryError)
                        | (File c, Dir b) \<Rightarrow> Inl (os_error env IsADirectoryError)
                        | (File c, File c') \<Rightarrow> attempt))))"

subsection \<open>Requests and results\<close>

text \<open>
  \<^verbatim>\<open>InstallRequest\<close>, and the fields of \<^verbatim>\<open>ExtensionMetadata\<close> the code reads. A field
  name that two classes share carries the class as a prefix.
\<close>

record InstallRequest =
  request_extensionId :: string
  request_version :: "string option"
  force :: bool
  installDependencies :: bool

record ExtensionMetadata =
  metadata_name :: string
  metadata_version :: string
  repository :: string
  dependencies :: "string list"
  installUrl :: string
  installMethod :: string

text \<open>
  The dictionary an operation returns. \<open>version\<close>, \<open>backupId\<close> and \<open>enabled\<close> are the
  keys only some results have: \<open>None\<close> is a missing key.
\<close>

record result =
  success :: bool
  extensionId :: string
  message :: string
  version :: "string option"
  backupId :: "string option"
  enabled :: "bool option"

subsection \<open>\<^verbatim>\<open>toggle_extension\<close>\<close>

text \<open>
  Each public operation is a \<^verbatim>\<open>try\<close> with the handler \<^verbatim>\<open>except Exception\<close>. The
  body of the \<^verbatim>\<open>try\<close> is a function of its own (\<open>toggle_try\<close>, \<open>uninstall_try\<close>,
  \<open>install_try\<close>): it returns \<open>Inr\<close> of the dictionary it returns, or \<open>Inl\<close> of the
  exception it raises, and the tree as it is at that moment. The operation applies the
  handler to that.
\<close>

definition toggle_try :: "env \<Rightarrow> filesystem \<Rightarrow> string \<Rightarrow> bool \<Rightarrow> (exn + result) \<times> filesystem" where
  "toggle_try env fs extension_id enabled' =
     (case (if enabled'
            then (if startswith extension_id ''disabled_''
                  then os_rename env fs extension_id (drop 9 extension_id)
                  else Inr fs)
            else (if \<not> startswith extension_id ''disabled_''
                  then os_rename env fs extension_id (''disabled_'' @ extension_id)
                  else Inr fs)) of
        Inl e \<Rightarrow> (Inl e, fs)
      | Inr fs' \<Rightarrow>
          (Inr \<lparr>success = True, extensionId = extension_id,
                message = ''Extension '' @ (if enabled' then ''enabled'' else ''disabled''),
                version = None, backupId = None, enabled = Some enabled'\<rparr>, fs'))"

definition toggle_extension :: "env \<Rightarrow> filesystem \<Rightarrow> string \<Rightarrow> bool \<Rightarrow> result \<times> filesystem" where
  "toggle_extension env fs extension_id enabled' =
     (case toggle_try env fs extension_id enabled' of
        (Inr r, fs') \<Rightarrow> (r, fs')
      | (Inl e, fs') \<Rightarrow>
          (\<lparr>success = False, extensionId = extension_id,
            message = ''Toggle failed: '' @ str_exn e,
            version = None, backupId = None, enabled = None\<rparr>, fs'))"

subsection \<open>\<^verbatim>\<open>_create_backup\<close>\<close>

definition create_backup :: "env \<Rightarrow> filesystem \<Rightarrow> string \<Rightarrow> string \<Rightarrow> (exn + string) \<times> filesystem" where
  "create_backup env fs extension_id reason =
     (let timestamp = strftime (now env);
          backup_id = extension_id @ ''_'' @ reason @ ''_'' @ timestamp
      in case lookup_entry fs extension_id of
           None \<Rightarrow> (Inr backup_id, fs)
         | Some source \<Rightarrow>
             (case shutil_copytree env source (backup_dir fs) backup_id of
                (Inl e, backups) \<Rightarrow> (Inl e, fs\<lparr>backup_dir := backups\<rparr>)
              | (Inr u, backups) \<Rightarrow> (Inr backup_id, fs\<lparr>backup_dir := backups\<rparr>)))"

subsection \<open>\<^verbatim>\<open>uninstall_extension\<close>\<close>

definition uninstall_try :: "env \<Rightarrow> filesystem \<Rightarrow> string \<Rightarrow> (exn + result) \<times> filesystem" where
  "uninstall_try env fs extension_id =
     (if \<not> os_path_exists fs extension_id
      then (Inr \<lparr>success = False, extensionId = extension_id,
                 message = ''Extension not found'',
                 version = None, backupId = None, enabled = None\<rparr>, fs)
      else (case create_backup env fs extension_id ''before_uninstall'' of
              (Inl e, fs1) \<Rightarrow> (Inl e, fs1)
            | (Inr backup_id, fs1) \<Rightarrow>
                (case shutil_rmtree env fs1 extension_id of
                   (Inl e, fs2) \<Rightarrow> (Inl e, fs2)
                 | (Inr u, fs2) \<Rightarrow>
                     (Inr \<lparr>success = True, extensionId = extension_id,
                           message = ''Extension uninstalled successfully'',
                           version = None, backupId = Some backup_id, enabled = None\<rparr>, fs2))))"

definition uninstall_extension :: "env \<Rightarrow> filesystem \<Rightarrow> string \<Rightarrow> result \<times> filesystem" where
  "uninstall_extension env fs extension_id =
     (case uninstall_try env fs extension_id of
        (Inr r, fs') \<Rightarrow> (r, fs')
      | (Inl e, fs') \<Rightarrow>
          (\<lparr>success = False, extensionId = extension_id,
            message = ''Uninstallation failed: '' @ str_exn e,
            version = None, backupId = None, enabled = None\<rparr>, fs'))"

subsection \<open>\<^verbatim>\<open>install_extension\<close> and its steps\<close>

text \<open>
  The body of \<^verbatim>\<open>_git_clone_extension\<close>. A checkout that fails is printed and
  otherwise ignored (the bare \<^verbatim>\<open>except:\<close>); nothing is removed or restored after a
  clone that fails.
\<close>

definition git_clone_try ::
  "env \<Rightarrow> filesystem \<Rightarrow> string \<Rightarrow> string \<Rightarrow> string option \<Rightarrow> (exn + unit) \<times> filesystem" where
  "git_clone_try env fs repo_url target version' =
     (case (if os_path_exists fs target then shutil_rmtree env fs target else (Inr (), fs)) of
        (Inl e, fs1) \<Rightarrow> (Inl e, fs1)
      | (Inr u, fs1) \<Rightarrow>
          (case clone_from env repo_url of
             Inl (text, residue) \<Rightarrow>
               (Inl (OtherException text), left_behind env fs1 target residue)
           | Inr tree \<Rightarrow>
               (case put_entry env fs1 target tree of
                  Inl e \<Rightarrow> (Inl e, fs1)
                | Inr fs2 \<Rightarrow>
                    (case version' of
                       None \<Rightarrow> (Inr (), fs2)
                     | Some v \<Rightarrow>
                         if v \<noteq> [] \<and> v \<noteq> ''latest''
                         then (case git_checkout env v tree of
                                 Inl (text, residue) \<Rightarrow>
                                   (Inr (), left_behind env fs2 target residue)
                               | Inr tree' \<Rightarrow> (Inr (), set_entry fs2 target tree'))
                         else (Inr (), fs2)))))"

definition git_clone_extension ::
  "env \<Rightarrow> filesystem \<Rightarrow> string \<Rightarrow> string \<Rightarrow> string option \<Rightarrow> (exn + unit) \<times> filesystem" where
  "git_clone_extension env fs repo_url target version' =
     (case git_clone_try env fs repo_url target version' of
        (Inl e, fs') \<Rightarrow> (Inl (HTTPException 500 (''Git clone failed: '' @ str_exn e)), fs')
      | (Inr u, fs') \<Rightarrow> (Inr u, fs'))"

text \<open>
  The body of \<^verbatim>\<open>_download_and_extract\<close>: the transfer, the write of the temporary
  file, the extraction over the target, the removal of the temporary file.
\<close>

definition download_try ::
  "env \<Rightarrow> filesystem \<Rightarrow> string \<Rightarrow> string \<Rightarrow> (exn + unit) \<times> filesystem" where
  "download_try env fs download_url target =
     (case requests_get env download_url of
        Inl text \<Rightarrow> (Inl (OtherException text), fs)
      | Inr body \<Rightarrow>
          (case write_fault env of
             Some (text, residue) \<Rightarrow>
               (Inl (OtherException text),
                case residue of
                  None \<Rightarrow> fs
                | Some partial \<Rightarrow>
                    fs\<lparr>temp_dir :=
                         AList.update (temp_file_name env) (File partial) (temp_dir fs)\<rparr>)
           | None \<Rightarrow>
               (let fs1 = fs\<lparr>temp_dir :=
                             AList.update (temp_file_name env) (File body) (temp_dir fs)\<rparr>
                in case extractall env body (lookup_entry fs1 target) of
                     Inl (text, residue) \<Rightarrow>
                       (Inl (OtherException text), left_behind env fs1 target residue)
                   | Inr n \<Rightarrow>
                       (case put_entry env fs1 target n of
                          Inl e \<Rightarrow> (Inl e, fs1)
                        | Inr fs2 \<Rightarrow>
                            (case remove_fault env of
                               Some text \<Rightarrow> (Inl (OtherException text), fs2)
                             | None \<Rightarrow>
                                 (Inr (), fs2\<lparr>temp_dir :=
                                    AList.delete (temp_file_name env) (temp_dir fs2)\<rparr>))))))"

definition download_and_extract ::
  "env \<Rightarrow> filesystem \<Rightarrow> string \<Rightarrow> string \<Rightarrow> (exn + unit) \<times> filesystem" where
  "download_and_extract env fs download_url target =
     (case download_try env fs download_url target of
        (Inl e, fs') \<Rightarrow> (Inl (HTTPException 500 (''Download failed: '' @ str_exn e)), fs')
      | (Inr u, fs') \<Rightarrow> (Inr u, fs'))"

text \<open>\<^verbatim>\<open>os.path.exists(os.path.join(extension_path, "install.py"))\<close>\<close>

definition install_script_exists :: "filesystem \<Rightarrow> string \<Rightarrow> bool" where
  "install_script_exists fs extension_id =
     (case lookup_entry fs extension_id of
        Some (Dir children) \<Rightarrow> map_of children ''install.py'' \<noteq> None
      | _ \<Rightarrow> False)"

text \<open>
  \<^verbatim>\<open>_configure_extension\<close>: of what \<^verbatim>\<open>subprocess.run\<close> raises, \<^verbatim>\<open>TimeoutExpired\<close>
  and \<^verbatim>\<open>CalledProcessError\<close> are printed and dropped; anything else goes on to the
  caller.
\<close>

definition configure_extension :: "env \<Rightarrow> filesystem \<Rightarrow> string \<Rightarrow> (exn + unit) \<times> filesystem" where
  "configure_extension env fs extension_id =
     (if install_script_exists fs extension_id
      then (case subprocess_run env extension_id fs of
              (Inr u, fs') \<Rightarrow> (Inr (), fs')
            | (Inl e, fs') \<Rightarrow>
                (case e of
                   TimeoutExpired text \<Rightarrow> (Inr (), fs')
                 | CalledProcessError text \<Rightarrow> (Inr (), fs')
                 | _ \<Rightarrow> (Inl e, fs')))
      else (Inr (), fs))"

text \<open>
  The first step of \<^verbatim>\<open>install_extension\<close>: a backup when the target exists.
\<close>

definition backup_existing :: "env \<Rightarrow> filesystem \<Rightarrow> string \<Rightarrow> (exn + unit) \<times> filesystem" where
  "backup_existing env fs target =
     (if os_path_exists fs target
      then (case create_backup env fs target ''before_install'' of
              (Inl e, fs') \<Rightarrow> (Inl e, fs')
            | (Inr backup_id, fs') \<Rightarrow> (Inr (), fs'))
      else (Inr (), fs))"

text \<open>The second step: the dispatch on \<^verbatim>\<open>metadata.installMethod\<close>.\<close>

definition materialize ::
  "env \<Rightarrow> filesystem \<Rightarrow> InstallRequest \<Rightarrow> ExtensionMetadata \<Rightarrow> (exn + unit) \<times> filesystem" where
  "materialize env fs request metadata =
     (if installMethod metadata = ''git_clone''
      then git_clone_extension env fs (repository metadata) (request_extensionId request)
             (request_version request)
      else if installMethod metadata = ''download_zip''
      then download_and_extract env fs (installUrl metadata) (request_extensionId request)
      else (Inl (HTTPException 400
                   (''Unsupported install method: '' @ installMethod metadata)), fs))"

text \<open>\<^verbatim>\<open>request.version or metadata.version\<close>: an empty string counts as missing.\<close>

definition resolved_version :: "InstallRequest \<Rightarrow> ExtensionMetadata \<Rightarrow> string" where
  "resolved_version request metadata =
     (case request_version request of
        None \<Rightarrow> metadata_version metadata
      | Some v \<Rightarrow> if v = [] then metadata_version metadata else v)"

text \<open>
  The body of the \<^verbatim>\<open>try\<close> of \<^verbatim>\<open>install_extension\<close>. Between the dispatch and the
  configuration \<^verbatim>\<open>_install_dependencies\<close> only prints.
\<close>

definition install_try ::
  "env \<Rightarrow> filesystem \<Rightarrow> InstallRequest \<Rightarrow> ExtensionMetadata \<Rightarrow> (exn + result) \<times> filesystem" where
  "install_try env fs request metadata =
     (case backup_existing env fs (request_extensionId request) of
        (Inl e, fs1) \<Rightarrow> (Inl e, fs1)
      | (Inr u, fs1) \<Rightarrow>
          (case materialize env fs1 request metadata of
             (Inl e, fs2) \<Rightarrow> (Inl e, fs2)
           | (Inr u', fs2) \<Rightarrow>
               (case configure_extension env fs2 (request_extensionId request) of
                  (Inl e, fs3) \<Rightarrow> (Inl e, fs3)
                | (Inr u'', fs3) \<Rightarrow>
                    (Inr \<lparr>success = True, extensionId = request_extensionId request,
                          message = ''Successfully installed '' @ metadata_name metadata,
                          version = Some (resolved_version request metadata),
                          backupId = None, enabled = None\<rparr>, fs3))))"

definition install_extension ::
  "env \<Rightarrow> filesystem \<Rightarrow> InstallRequest \<Rightarrow> ExtensionMetadata \<Rightarrow> result \<times> filesystem" where
  "install_extension env fs request metadata =
     (case install_try env fs request metadata of
        (Inr r, fs') \<Rightarrow> (r, fs')
      | (Inl e, fs') \<Rightarrow>
          (\<lparr>success = False, extensionId = request_extensionId request,
            message = ''Installation failed: '' @ str_exn e,
            version = None, backupId = None, enabled = None\<rparr>, fs'))"

subsection \<open>\<^verbatim>\<open>_scan_installed_extensions\<close>\<close>

record InstalledExtension =
  ext_id :: string
  ext_name :: string
  ext_version :: string
  ext_path :: string
  isEnabled :: bool
  installedDate :: string
  hasUpdates :: bool

text \<open>\<^verbatim>\<open>str.title()\<close> on ASCII letters: a letter after a letter is lowered, any other raised.\<close>

definition is_upper :: "char \<Rightarrow> bool" where
  "is_upper c = (65 \<le> (of_char c :: nat) \<and> (of_char c :: nat) \<le> 90)"

definition is_lower :: "char \<Rightarrow> bool" where
  "is_lower c = (97 \<le> (of_char c :: nat) \<and> (of_char c :: nat) \<le> 122)"

definition to_upper :: "char \<Rightarrow> char" where
  "to_upper c = (if is_lower c then char_of ((of_char c :: nat) - 32) else c)"

definition to_lower :: "char \<Rightarrow> char" where
  "to_lower c = (if is_upper c then char_of ((of_char c :: nat) + 32) else c)"

fun title_from :: "bool \<Rightarrow> string \<Rightarrow> string" where
  "title_from previous_is_cased [] = []"
| "title_from previous_is_cased (c # cs) =
     (if previous_is_cased then to_lower c else to_upper c)
       # title_from (is_upper c \<or> is_lower c) cs"

definition title :: "string \<Rightarrow> string" where
  "title s = title_from False s"

text \<open>\<^verbatim>\<open>s.replace(a, b)\<close> for single characters.\<close>

definition replace_char :: "char \<Rightarrow> char \<Rightarrow> string \<Rightarrow> string" where
  "replace_char a b s = map (\<lambda>c. if c = a then b else c) s"

text \<open>
  \<^verbatim>\<open>os.path.exists(os.path.join(ext_path, p))\<close> inside a directory with the entries
  \<open>children\<close>: a path that ends in a slash exists only as a directory.
\<close>

definition exists_in :: "directory \<Rightarrow> string \<Rightarrow> bool" where
  "exists_in children p =
     (if p \<noteq> [] \<and> last p = CHR ''/''
      then is_dir (map_of children (butlast p))
      else map_of children p \<noteq> None)"

definition info_files :: "string list" where
  "info_files = [''install.py'', ''scripts/'', ''__init__.py'', ''README.md'']"

definition has_valid_structure :: "directory \<Rightarrow> bool" where
  "has_valid_structure children = list_ex (exists_in children) info_files"

text \<open>The entries of the directory at entry \<open>name\<close> of the extensions directory.\<close>

definition children_of :: "filesystem \<Rightarrow> string \<Rightarrow> directory" where
  "children_of fs name = entries (lookup_entry fs name)"

definition parse_extension_info :: "env \<Rightarrow> filesystem \<Rightarrow> string \<Rightarrow> InstalledExtension option" where
  "parse_extension_info env fs item =
     (if \<not> has_valid_structure (children_of fs item) then None
      else Some \<lparr>ext_id = item,
                 ext_name = title (replace_char (CHR ''_'') (CHR '' '')
                                     (replace_char (CHR ''-'') (CHR '' '') item)),
                 ext_version =
                   (if exists_in (children_of fs item) ''.git''
                    then (case head_hexsha env item of
                            Inr (Some hexsha) \<Rightarrow> take 8 hexsha
                          | _ \<Rightarrow> ''unknown'')
                    else ''unknown''),
                 ext_path = ext_path_of env item,
                 isEnabled = (\<not> startswith item ''disabled_''),
                 installedDate = getctime_iso env item,
                 hasUpdates = False\<rparr>)"

text \<open>\<^verbatim>\<open>os.listdir\<close>\<close>

definition os_listdir :: "env \<Rightarrow> node \<Rightarrow> exn + string list" where
  "os_listdir env root =
     (case root of
        File content \<Rightarrow> Inl (os_error env NotADirectoryError)
      | Dir es \<Rightarrow> Inr (map fst es))"

text \<open>The loop over the listing; \<open>extensions\<close> is the list built so far.\<close>

fun scan_loop ::
  "env \<Rightarrow> filesystem \<Rightarrow> string list \<Rightarrow> InstalledExtension list \<Rightarrow> InstalledExtension list" where
  "scan_loop env fs [] extensions = extensions"
| "scan_loop env fs (item # items) extensions =
     (if is_dir (lookup_entry fs item) \<and> \<not> startswith item ''.''
      then (case parse_extension_info env fs item of
              Some extension \<Rightarrow> scan_loop env fs items (extensions @ [extension])
            | None \<Rightarrow> scan_loop env fs items extensions)
      else scan_loop env fs items extensions)"

definition scan_installed_extensions :: "env \<Rightarrow> filesystem \<Rightarrow> InstalledExtension list" where
  "scan_installed_extensions env fs =
     (case extensions_dir fs of
        None \<Rightarrow> []
      | Some root \<Rightarrow>
          (case os_listdir env root of
             Inl e \<Rightarrow> []
           | Inr items \<Rightarrow> scan_loop env fs items []))"

subsection \<open>Example environments and trees\<close>

text \<open>An environment in which nothing goes wrong, on 9 March 2024 at 07:05:42.\<close>

definition quiet_env :: env where
  "quiet_env =
     \<lparr>platform = Posix,
      now = \<lparr>year = 2024, month = 3, day = 9, hour = 7, minute = 5, second = 42,
             microsecond = 123456\<rparr>,
      strerror = (\<lambda>k. case k of
                        FileNotFoundError \<Rightarrow> ''[Errno 2] No such file or directory''
                      | FileExistsError \<Rightarrow> ''[Errno 17] File exists''
                      | NotADirectoryError \<Rightarrow> ''[Errno 20] Not a directory''
                      | IsADirectoryError \<Rightarrow> ''[Errno 21] Is a directory''
                      | DirectoryNotEmpty \<Rightarrow> ''[Errno 39] Directory not empty''),
      copytree_fault = None, rmtree_fault = None, rename_fault = None,
      write_fault = None, remove_fault = None,
      clone_from = (\<lambda>url. Inr (Dir [(''install.py'', File ''pass'')])),
      git_checkout = (\<lambda>v t. Inr t),
      requests_get = (\<lambda>url. Inr ''PK''),
      temp_file_name = ''download_1.5.zip'',
      extractall = (\<lambda>archive old. Inr (Dir [(''README.md'', File ''hello'')])),
      subprocess_run = (\<lambda>name fs. (Inr (), fs)),
      head_hexsha = (\<lambda>name. Inr (Some ''0123456789abcdef'')),
      getctime_iso = (\<lambda>name. ''2024-03-09T07:05:42''),
      ext_path_of = (\<lambda>name. ''/sd/extensions/'' @ name)\<rparr>"

text \<open>
  The extensions directory of the scenario of the specification: \<^verbatim>\<open>foo\<close> with an
  install script, the hidden \<^verbatim>\<open>.git\<close>, the empty \<^verbatim>\<open>bar\<close>; and a plain file.
\<close>

definition sample_fs :: filesystem where
  "sample_fs =
     \<lparr>extensions_dir = Some (Dir [(''foo'', Dir [(''install.py'', File ''pass'')]),
                                  (''.git'', Dir [(''README.md'', File [])]),
                                  (''bar'', Dir []),
                                  (''notes.txt'', File ''todo'')]),
      backup_dir = [], temp_dir = []\<rparr>"

text \<open>No extensions directory at all.\<close>

definition no_extensions_fs :: filesystem where
  "no_extensions_fs = \<lparr>extensions_dir = None, backup_dir = [], temp_dir = []\<rparr>"

text \<open>Both \<^verbatim>\<open>foo\<close> and \<^verbatim>\<open>disabled_foo\<close> are installed.\<close>

definition crowded_fs :: filesystem where
  "crowded_fs =
     \<lparr>extensions_dir = Some (Dir [(''foo'', Dir [(''install.py'', File ''pass'')]),
                                  (''disabled_foo'', Dir [(''install.py'', File ''old'')])]),
      backup_dir = [], temp_dir = []\<rparr>"

text \<open>
  \<^verbatim>\<open>foo\<close> is installed, and a backup taken before an install in this very second is
  already there.
\<close>

definition rerun_fs :: filesystem where
  "rerun_fs =
     \<lparr>extensions_dir = Some (Dir [(''foo'', Dir [(''install.py'', File ''pass'')])]),
      backup_dir = [(''foo_before_install_20240309_070542'', Dir [(''install.py'', File ''old'')])],
      temp_dir = []\<rparr>"

text \<open>On Windows, with the directory in use by another process: renames are refused.\<close>

definition locked_env :: env where
  "locked_env =
     quiet_env\<lparr>platform := Windows, rename_fault := Some ''[WinError 5] Access is denied''\<rparr>"

text \<open>The disk is full: \<^verbatim>\<open>shutil.copytree\<close> is refused.\<close>

definition disk_full_env :: env where
  "disk_full_env =
     quiet_env\<lparr>copytree_fault := Some (''[Errno 28] No space left on device'', None)\<rparr>"

text \<open>
  A file of the extension cannot be read: \<^verbatim>\<open>shutil.copytree\<close> creates the backup
  directory, copies nothing into it and raises.
\<close>

definition unreadable_env :: env where
  "unreadable_env =
     quiet_env\<lparr>copytree_fault := Some (''[Errno 13] Permission denied'', Some (Dir []))\<rparr>"

text \<open>A request to install \<^verbatim>\<open>foo\<close>, and its descriptor with a given install method.\<close>

definition foo_request :: InstallRequest where
  "foo_request =
     \<lparr>request_extensionId = ''foo'', request_version = None, force = False,
      installDependencies = True\<rparr>"

definition foo_metadata :: "string \<Rightarrow> ExtensionMetadata" where
  "foo_metadata method =
     \<lparr>metadata_name = ''Foo'', metadata_version = ''1.0'',
      repository = ''https://example.org/foo.git'', dependencies = [],
      installUrl = ''https://example.org/foo.zip'', installMethod = method\<rparr>"

text \<open>The repository cannot be reached: \<^verbatim>\<open>git.Repo.clone_from\<close> raises.\<close>

definition offline_env :: env where
  "offline_env =
     quiet_env\<lparr>clone_from := (\<lambda>url. Inl (''fatal: unable to access the repository'', None))\<rparr>"

text \<open>
  The transfer works but the checkout after it fails: \<^verbatim>\<open>git\<close> exits with an error and
  leaves the new directory, with its repository data, in place.
\<close>

definition broken_checkout_env :: env where
  "broken_checkout_env =
     quiet_env\<lparr>clone_from :=
       (\<lambda>url. Inl (''Clone succeeded, but checkout failed'', Some (Dir [(''.git'', Dir [])])))\<rparr>"

text \<open>The install script runs into the timeout, or exits with a status other than 0.\<close>

definition slow_script_env :: env where
  "slow_script_env =
     quiet_env\<lparr>subprocess_run :=
       (\<lambda>name fs. (Inl (TimeoutExpired ''timed out after 300 seconds''), fs))\<rparr>"

definition failing_script_env :: env where
  "failing_script_env =
     quiet_env\<lparr>subprocess_run :=
       (\<lambda>name fs. (Inl (CalledProcessError ''returned non-zero exit status 1''), fs))\<rparr>"

text \<open>The tree after \<^verbatim>\<open>foo\<close> was cloned into an empty installation.\<close>

definition installed_fs :: filesystem where
  "installed_fs =
     \<lparr>extensions_dir = Some (Dir [(''foo'', Dir [(''install.py'', File ''pass'')])]),
      backup_dir = [], temp_dir = []\<rparr>"

section \<open>Properties\<close>

subsection \<open>Auxiliary facts\<close>

lemma startswith_Nil [simp]: "startswith s []"
  by (simp add: startswith_def)

lemma startswith_Cons [simp]: "startswith (c # s) (d # p) = (c = d \<and> startswith s p)"
  by (simp add: startswith_def)

lemma startswith_empty [simp]: "startswith [] (d # p) = False"
  by (simp add: startswith_def)

lemma lookup_entry_moved:
  "lookup_entry (fs\<lparr>extensions_dir :=
       Some (Dir (AList.update dst n (AList.delete src (entries (extensions_dir fs)))))\<rparr>)
     = (lookup_entry fs)(src := None, dst \<mapsto> n)"
  by (rule ext) (simp add: lookup_entry_def entries_def update_conv' delete_conv')

lemma os_rename_free:
  assumes "lookup_entry fs src = Some n" "lookup_entry fs dst = None"
    "dst \<noteq> []" "dst \<noteq> ''.''" "dst \<noteq> ''..''" "rename_fault env = None"
  shows "os_rename env fs src dst =
     Inr (fs\<lparr>extensions_dir :=
            Some (Dir (AList.update dst n (AList.delete src (entries (extensions_dir fs)))))\<rparr>)"
  using assms by (simp add: os_rename_def rename_target_def)

lemma length_str_nat: "0 < k \<Longrightarrow> n < 10 ^ k \<Longrightarrow> length (str_nat n) \<le> k"
proof (induction n arbitrary: k rule: str_nat.induct)
  case (1 n)
  show ?case
  proof (cases "n < 10")
    case True
    with "1.prems" show ?thesis
      by (simp add: str_nat.simps [of n])
  next
    case False
    have "k \<noteq> Suc 0"
      using "1.prems" False by auto
    with "1.prems" obtain j where k: "k = Suc j" "0 < j"
      by (cases k) auto
    with "1.prems" have "n div 10 < 10 ^ j"
      by (simp add: less_mult_imp_div_less mult.commute)
    with "1.IH" [OF False \<open>0 < j\<close>] have "length (str_nat (n div 10)) \<le> j" .
    with False k show ?thesis
      by (simp add: str_nat.simps [of n])
  qed
qed

lemma length_str_nat_2: "n < 100 \<Longrightarrow> length (str_nat n) \<le> 2"
  using length_str_nat [of 2 n] by simp

lemma length_str_nat_4: "n < 10000 \<Longrightarrow> length (str_nat n) \<le> 4"
  using length_str_nat [of 4 n] by simp

lemma length_zfill: "length s \<le> w \<Longrightarrow> length (zfill w s) = w"
  by (simp add: zfill_def)

lemma length_strftime:
  assumes "year dt < 10000" "month dt < 100" "day dt < 100" "hour dt < 100"
    "minute dt < 100" "second dt < 100"
  shows "length (strftime dt) = 15"
  using assms by (simp add: strftime_def length_zfill length_str_nat_2 length_str_nat_4)

lemma strftime_now: "strftime (now quiet_env) = ''20240309_070542''"
  by (simp add: strftime_def quiet_env_def str_nat.simps digit_char_def zfill_def)

lemma create_backup_absent:
  "lookup_entry fs X = None \<Longrightarrow>
   create_backup env fs X reason = (Inr (X @ ''_'' @ reason @ ''_'' @ strftime (now env)), fs)"
  by (simp add: create_backup_def)

lemma create_backup_copies:
  "lookup_entry fs X = Some (Dir children) \<Longrightarrow>
   map_of (backup_dir fs) (X @ ''_'' @ reason @ ''_'' @ strftime (now env)) = None \<Longrightarrow>
   copytree_fault env = None \<Longrightarrow>
   create_backup env fs X reason =
     (Inr (X @ ''_'' @ reason @ ''_'' @ strftime (now env)),
      fs\<lparr>backup_dir := AList.update (X @ ''_'' @ reason @ ''_'' @ strftime (now env))
                          (Dir children) (backup_dir fs)\<rparr>)"
  by (simp add: create_backup_def shutil_copytree_def Let_def)

lemma create_backup_raises:
  "lookup_entry fs X = Some src \<Longrightarrow>
   shutil_copytree env src (backup_dir fs) (X @ ''_'' @ reason @ ''_'' @ strftime (now env))
     = (Inl e, backups) \<Longrightarrow>
   create_backup env fs X reason = (Inl e, fs\<lparr>backup_dir := backups\<rparr>)"
  by (simp add: create_backup_def Let_def)

lemma lookup_entry_backup_dir [simp]:
  "lookup_entry (fs\<lparr>backup_dir := b\<rparr>) = lookup_entry fs"
  by (rule ext) (simp add: lookup_entry_def)

lemma uninstall_not_found:
  "lookup_entry fs X = None \<Longrightarrow>
   uninstall_extension env fs X =
     (\<lparr>success = False, extensionId = X, message = ''Extension not found'',
       version = None, backupId = None, enabled = None\<rparr>, fs)"
  by (simp add: uninstall_extension_def uninstall_try_def os_path_exists_def)

lemma str_nat_400: "str_nat 400 = ''400''"
  by (simp add: str_nat.simps digit_char_def)

lemma str_nat_500: "str_nat 500 = ''500''"
  by (simp add: str_nat.simps digit_char_def)

lemma backup_existing_absent:
  "lookup_entry fs X = None \<Longrightarrow> backup_existing env fs X = (Inr (), fs)"
  by (simp add: backup_existing_def os_path_exists_def)

lemma backup_existing_copies:
  "lookup_entry fs X = Some (Dir children) \<Longrightarrow>
   map_of (backup_dir fs) (X @ ''_'' @ ''before_install'' @ ''_'' @ strftime (now env)) = None \<Longrightarrow>
   copytree_fault env = None \<Longrightarrow>
   backup_existing env fs X =
     (Inr (), fs\<lparr>backup_dir := AList.update (X @ ''_'' @ ''before_install'' @ ''_'' @ strftime (now env))
                          (Dir children) (backup_dir fs)\<rparr>)"
  by (simp only: backup_existing_def os_path_exists_def create_backup_copies) simp

lemma backup_existing_raises:
  "lookup_entry fs X = Some src \<Longrightarrow>
   shutil_copytree env src (backup_dir fs)
     (X @ ''_'' @ ''before_install'' @ ''_'' @ strftime (now env)) = (Inl e, backups) \<Longrightarrow>
   backup_existing env fs X = (Inl e, fs\<lparr>backup_dir := backups\<rparr>)"
  by (simp only: backup_existing_def os_path_exists_def create_backup_raises) simp

lemma backup_existing_frame:
  "backup_existing env fs X = (r, fs') \<Longrightarrow>
   extensions_dir fs' = extensions_dir fs \<and> temp_dir fs' = temp_dir fs"
  by (auto simp add: backup_existing_def create_backup_def Let_def
      split: if_splits option.splits sum.splits prod.splits)

lemma materialize_unsupported:
  "installMethod metadata \<noteq> ''git_clone'' \<Longrightarrow> installMethod metadata \<noteq> ''download_zip'' \<Longrightarrow>
   materialize env fs request metadata =
     (Inl (HTTPException 400 (''Unsupported install method: '' @ installMethod metadata)), fs)"
  by (simp add: materialize_def)

lemma install_extension_backup_raised:
  "backup_existing env fs (request_extensionId request) = (Inl e, fs1) \<Longrightarrow>
   install_extension env fs request metadata =
     (\<lparr>success = False, extensionId = request_extensionId request,
       message = ''Installation failed: '' @ str_exn e,
       version = None, backupId = None, enabled = None\<rparr>, fs1)"
  by (simp add: install_extension_def install_try_def)

lemma install_extension_materialize_raised:
  "backup_existing env fs (request_extensionId request) = (Inr u, fs1) \<Longrightarrow>
   materialize env fs1 request metadata = (Inl e, fs2) \<Longrightarrow>
   install_extension env fs request metadata =
     (\<lparr>success = False, extensionId = request_extensionId request,
       message = ''Installation failed: '' @ str_exn e,
       version = None, backupId = None, enabled = None\<rparr>, fs2)"
  by (simp add: install_extension_def install_try_def)

lemma shutil_rmtree_directory:
  "lookup_entry fs X = Some (Dir children) \<Longrightarrow> rmtree_fault env = None \<Longrightarrow>
   shutil_rmtree env fs X =
     (Inr (), fs\<lparr>extensions_dir := Some (Dir (AList.delete X (entries (extensions_dir fs))))\<rparr>)"
  by (simp add: shutil_rmtree_def)

lemma left_behind_directory:
  "extensions_dir fs = Some (Dir es) \<Longrightarrow>
   left_behind env fs X residue = (case residue of None \<Rightarrow> fs | Some n \<Rightarrow> set_entry fs X n)"
  by (simp add: left_behind_def put_entry_def split: option.splits)

lemma lookup_entry_left_behind:
  "extensions_dir fs = Some (Dir es) \<Longrightarrow>
   lookup_entry (left_behind env fs X residue) X =
     (case residue of None \<Rightarrow> lookup_entry fs X | Some n \<Rightarrow> Some n)"
  by (simp add: left_behind_directory lookup_entry_def set_entry_def entries_def update_conv'
      split: option.splits)

lemma left_behind_frame:
  "backup_dir (left_behind env fs X residue) = backup_dir fs \<and>
   temp_dir (left_behind env fs X residue) = temp_dir fs"
  by (simp add: left_behind_def put_entry_def set_entry_def
      split: option.splits node.splits)

lemma lookup_entry_deleted:
  "lookup_entry (fs\<lparr>extensions_dir := Some (Dir (AList.delete X (entries (extensions_dir fs))))\<rparr>)
     = (lookup_entry fs)(X := None)"
  by (rule ext) (simp add: lookup_entry_def entries_def delete_conv')

lemma lookup_entry_set_entry:
  "lookup_entry (set_entry fs X n) = (lookup_entry fs)(X \<mapsto> n)"
  by (rule ext) (simp add: lookup_entry_def set_entry_def entries_def update_conv')

lemma put_entry_directory:
  "extensions_dir fs = Some (Dir es) \<Longrightarrow> put_entry env fs X n = Inr (set_entry fs X n)"
  by (simp add: put_entry_def)

lemma git_clone_try_existing:
  assumes "lookup_entry fs X = Some (Dir old)" "rmtree_fault env = None"
  shows "git_clone_try env fs url X v =
     (case clone_from env url of
        Inl (msg, residue) \<Rightarrow>
          (Inl (OtherException msg),
           left_behind env
             (fs\<lparr>extensions_dir := Some (Dir (AList.delete X (entries (extensions_dir fs))))\<rparr>)
             X residue)
      | Inr tree \<Rightarrow>
          (Inr (),
           set_entry (fs\<lparr>extensions_dir := Some (Dir (AList.delete X (entries (extensions_dir fs))))\<rparr>) X
             (case v of
                None \<Rightarrow> tree
              | Some ver \<Rightarrow>
                  if ver \<noteq> [] \<and> ver \<noteq> ''latest''
                  then (case git_checkout env ver tree of
                          Inl (msg, residue) \<Rightarrow> (case residue of None \<Rightarrow> tree | Some t \<Rightarrow> t)
                        | Inr tree' \<Rightarrow> tree')
                  else tree)))"
  using assms
  by (auto simp add: git_clone_try_def os_path_exists_def shutil_rmtree_directory
      put_entry_directory left_behind_def put_entry_def set_entry_def entries_def
      split: sum.splits option.splits prod.splits)

lemma lookup_entry_root:
  "lookup_entry fs X = Some n \<Longrightarrow> \<exists>es. extensions_dir fs = Some (Dir es)"
  by (auto simp add: lookup_entry_def entries_def split: option.splits node.splits)

lemma lookup_entry_left_behind_gone:
  "lookup_entry
     (left_behind env
        (fs\<lparr>extensions_dir := Some (Dir (AList.delete X (entries (extensions_dir fs))))\<rparr>)
        X residue)
     = (lookup_entry fs)(X := residue)"
  by (rule ext)
    (simp add: left_behind_def put_entry_def set_entry_def lookup_entry_def entries_def
      update_conv' delete_conv' split: option.splits)

lemma materialize_git_clone:
  "installMethod metadata = ''git_clone'' \<Longrightarrow>
   materialize env fs request metadata =
     git_clone_extension env fs (repository metadata) (request_extensionId request)
       (request_version request)"
  by (simp add: materialize_def)

lemma configure_extension_script_warning:
  assumes "subprocess_run env X fs = (Inl (TimeoutExpired msg), fs') \<or>
           subprocess_run env X fs = (Inl (CalledProcessError msg), fs')"
  shows "configure_extension env fs X = (Inr (), if install_script_exists fs X then fs' else fs)"
  using assms by (auto simp add: configure_extension_def)

lemma has_valid_structure_iff:
  "has_valid_structure children \<longleftrightarrow>
     (map_of children ''install.py'' \<noteq> None \<or> is_dir (map_of children ''scripts'') \<or>
      map_of children ''__init__.py'' \<noteq> None \<or> map_of children ''README.md'' \<noteq> None)"
  by (simp add: has_valid_structure_def info_files_def exists_in_def)

lemma parse_extension_info_id:
  "parse_extension_info env fs item = Some e \<Longrightarrow> ext_id e = item"
  by (auto simp add: parse_extension_info_def split: if_splits)

lemma parse_extension_info_None:
  "parse_extension_info env fs item = None \<longleftrightarrow> \<not> has_valid_structure (children_of fs item)"
  by (simp add: parse_extension_info_def)

lemma scan_loop_ids:
  "map ext_id (scan_loop env fs items extensions) =
     map ext_id extensions @
     filter (\<lambda>item. is_dir (lookup_entry fs item) \<and> \<not> startswith item ''.'' \<and>
                     has_valid_structure (children_of fs item)) items"
proof (induction items arbitrary: extensions)
  case Nil
  show ?case by simp
next
  case (Cons item items)
  show ?case
  proof (cases "parse_extension_info env fs item")
    case None
    then have "\<not> has_valid_structure (children_of fs item)"
      by (simp add: parse_extension_info_None)
    with None show ?thesis
      using Cons.IH [of extensions] by simp
  next
    case (Some e)
    then have "has_valid_structure (children_of fs item)"
      using parse_extension_info_None [of env fs item] by simp
    with Some parse_extension_info_id [OF Some] show ?thesis
      using Cons.IH [of extensions] Cons.IH [of "extensions @ [e]"] by simp
  qed
qed

lemma install_try_returns_success:
  "install_try env fs request metadata = (Inr r, fs') \<Longrightarrow> success r"
  by (auto simp add: install_try_def split: prod.splits sum.splits)

lemma toggle_try_returns_success:
  "toggle_try env fs X b = (Inr r, fs') \<Longrightarrow> success r"
  by (auto simp add: toggle_try_def split: sum.splits)

lemma uninstall_try_returns_message:
  "uninstall_try env fs X = (Inr r, fs') \<Longrightarrow> message r \<noteq> []"
  by (auto simp add: uninstall_try_def split: if_splits prod.splits sum.splits)

lemmas tree_defs =
  lookup_entry_def entries_def os_path_exists_def filesystem_safe_def os_error_def

subsection \<open>Toggle\<close>

text \<open>
  Claim C10. When the name already encodes the requested state, \<^verbatim>\<open>toggle_extension\<close>
  calls no file operation at all: enabling a name without the prefix \<^verbatim>\<open>disabled_\<close>,
  and disabling a name \<^verbatim>\<open>disabled_X\<close>, return the success result and leave the tree as
  it is, whatever the tree holds; in particular when no entry of that name exists. (Where
  the name does not encode the requested state, a missing entry makes \<^verbatim>\<open>os.rename\<close>
  raise, and the result is a failure.)
\<close>

theorem toggle_matching_state_touches_nothing:
  "(\<not> startswith X ''disabled_'' \<longrightarrow>
      toggle_extension env fs X True =
        (\<lparr>success = True, extensionId = X, message = ''Extension enabled'',
          version = None, backupId = None, enabled = Some True\<rparr>, fs))
   \<and> toggle_extension env fs (''disabled_'' @ X) False =
        (\<lparr>success = True, extensionId = ''disabled_'' @ X, message = ''Extension disabled'',
          version = None, backupId = None, enabled = Some False\<rparr>, fs)"
  by (simp add: toggle_extension_def toggle_try_def)

theorem toggle_matching_state_witness:
  "\<not> startswith ''ghost'' ''disabled_'' \<and>
   \<not> os_path_exists no_extensions_fs ''ghost'' \<and>
   \<not> os_path_exists no_extensions_fs ''disabled_ghost'' \<and>
   toggle_extension quiet_env no_extensions_fs ''ghost'' True =
        (\<lparr>success = True, extensionId = ''ghost'', message = ''Extension enabled'',
          version = None, backupId = None, enabled = Some True\<rparr>, no_extensions_fs) \<and>
   toggle_extension quiet_env no_extensions_fs ''disabled_ghost'' False =
        (\<lparr>success = True, extensionId = ''disabled_ghost'', message = ''Extension disabled'',
          version = None, backupId = None, enabled = Some False\<rparr>, no_extensions_fs)"
  using toggle_matching_state_touches_nothing [of "''ghost''" quiet_env no_extensions_fs]
  by (simp add: tree_defs no_extensions_fs_def)

text \<open>
  Claim C2, as stated, fails where \<^verbatim>\<open>os.rename\<close> raises. With \<^verbatim>\<open>foo\<close> and a
  non-empty \<^verbatim>\<open>disabled_foo\<close> both present the new name is taken; with \<^verbatim>\<open>foo\<close> alone
  but in use on Windows the rename is refused. In both cases disabling \<^verbatim>\<open>foo\<close> returns
  a failure and renames nothing.
\<close>

theorem toggle_rename_refused_counterexample:
  "filesystem_safe ''foo'' \<and> \<not> startswith ''foo'' ''disabled_'' \<and>
   lookup_entry crowded_fs ''foo'' = Some (Dir [(''install.py'', File ''pass'')]) \<and>
   toggle_extension quiet_env crowded_fs ''foo'' False =
     (\<lparr>success = False, extensionId = ''foo'',
       message = ''Toggle failed: [Errno 39] Directory not empty'',
       version = None, backupId = None, enabled = None\<rparr>, crowded_fs) \<and>
   lookup_entry sample_fs ''foo'' = Some (Dir [(''install.py'', File ''pass'')]) \<and>
   lookup_entry sample_fs ''disabled_foo'' = None \<and>
   toggle_extension locked_env sample_fs ''foo'' False =
     (\<lparr>success = False, extensionId = ''foo'',
       message = ''Toggle failed: [WinError 5] Access is denied'',
       version = None, backupId = None, enabled = None\<rparr>, sample_fs)"
  by (simp add: toggle_extension_def toggle_try_def os_rename_def rename_target_def
      tree_defs crowded_fs_def sample_fs_def locked_env_def quiet_env_def)

text \<open>
  Claim C2, amended. Let \<open>X\<close> be a directory name without the prefix \<^verbatim>\<open>disabled_\<close>.
  \<^item> If \<open>X\<close> exists, the name \<^verbatim>\<open>disabled_X\<close> is free and the operating system carries
    out renames, disabling \<open>X\<close> succeeds and the entry is now called \<^verbatim>\<open>disabled_X\<close>, all
    other entries being as before; enabling \<^verbatim>\<open>disabled_X\<close> afterwards succeeds and
    restores the original names.
  \<^item> If \<^verbatim>\<open>disabled_X\<close> exists, the name \<open>X\<close> is free and renames are carried out,
    enabling \<^verbatim>\<open>disabled_X\<close> succeeds and the entry is now called \<open>X\<close>.
  \<^item> Enabling \<open>X\<close> and disabling \<^verbatim>\<open>disabled_X\<close> succeed and rename nothing.
  \<^item> If \<^verbatim>\<open>os.rename\<close> raises \<open>e\<close>, the result is the failure carrying the text of
    \<open>e\<close>, and nothing is renamed.
\<close>

theorem toggle_renames_directory:
  assumes safe: "filesystem_safe X"
    and plain: "\<not> startswith X ''disabled_''"
  shows
   "(rename_fault env = None \<and>
     lookup_entry fs X = Some n \<and> lookup_entry fs (''disabled_'' @ X) = None \<longrightarrow>
       success (fst (toggle_extension env fs X False)) \<and>
       lookup_entry (snd (toggle_extension env fs X False)) =
         (lookup_entry fs)(X := None, ''disabled_'' @ X \<mapsto> n) \<and>
       success (fst (toggle_extension env (snd (toggle_extension env fs X False))
                       (''disabled_'' @ X) True)) \<and>
       lookup_entry (snd (toggle_extension env (snd (toggle_extension env fs X False))
                       (''disabled_'' @ X) True)) = lookup_entry fs)
    \<and> (rename_fault env = None \<and>
        lookup_entry fs (''disabled_'' @ X) = Some n \<and> lookup_entry fs X = None \<longrightarrow>
       success (fst (toggle_extension env fs (''disabled_'' @ X) True)) \<and>
       lookup_entry (snd (toggle_extension env fs (''disabled_'' @ X) True)) =
         (lookup_entry fs)(''disabled_'' @ X := None, X \<mapsto> n))
    \<and> toggle_extension env fs X True =
        (\<lparr>success = True, extensionId = X, message = ''Extension enabled'',
          version = None, backupId = None, enabled = Some True\<rparr>, fs)
    \<and> toggle_extension env fs (''disabled_'' @ X) False =
        (\<lparr>success = True, extensionId = ''disabled_'' @ X, message = ''Extension disabled'',
          version = None, backupId = None, enabled = Some False\<rparr>, fs)
    \<and> (os_rename env fs X (''disabled_'' @ X) = Inl e \<longrightarrow>
        toggle_extension env fs X False =
          (\<lparr>success = False, extensionId = X, message = ''Toggle failed: '' @ str_exn e,
            version = None, backupId = None, enabled = None\<rparr>, fs))
    \<and> (os_rename env fs (''disabled_'' @ X) X = Inl e \<longrightarrow>
        toggle_extension env fs (''disabled_'' @ X) True =
          (\<lparr>success = False, extensionId = ''disabled_'' @ X,
            message = ''Toggle failed: '' @ str_exn e,
            version = None, backupId = None, enabled = None\<rparr>, fs))"
proof -
  from safe have X: "X \<noteq> []" "X \<noteq> ''.''" "X \<noteq> ''..''"
    by (simp_all add: filesystem_safe_def)
  have neq: "''disabled_'' @ X \<noteq> X" by simp
  have disable: "toggle_extension env g X False =
      (\<lparr>success = True, extensionId = X, message = ''Extension disabled'',
        version = None, backupId = None, enabled = Some False\<rparr>,
       g\<lparr>extensions_dir := Some (Dir (AList.update (''disabled_'' @ X) m
            (AList.delete X (entries (extensions_dir g)))))\<rparr>)"
    if "rename_fault env = None"
      "lookup_entry g X = Some m" "lookup_entry g (''disabled_'' @ X) = None" for g m
    using that plain
    by (simp add: toggle_extension_def toggle_try_def os_rename_free)
  have enable: "toggle_extension env g (''disabled_'' @ X) True =
      (\<lparr>success = True, extensionId = ''disabled_'' @ X, message = ''Extension enabled'',
        version = None, backupId = None, enabled = Some True\<rparr>,
       g\<lparr>extensions_dir := Some (Dir (AList.update X m
            (AList.delete (''disabled_'' @ X) (entries (extensions_dir g)))))\<rparr>)"
    if "rename_fault env = None"
      "lookup_entry g (''disabled_'' @ X) = Some m" "lookup_entry g X = None" for g m
    using that X
    by (simp add: toggle_extension_def toggle_try_def os_rename_free)
  show ?thesis
  proof (intro conjI impI)
    assume a: "rename_fault env = None \<and>
      lookup_entry fs X = Some n \<and> lookup_entry fs (''disabled_'' @ X) = None"
    then have ok: "rename_fault env = None" by simp
    let ?fs1 = "snd (toggle_extension env fs X False)"
    from a show "success (fst (toggle_extension env fs X False))"
      by (simp add: disable)
    from a show l1: "lookup_entry ?fs1 = (lookup_entry fs)(X := None, ''disabled_'' @ X \<mapsto> n)"
      by (simp add: disable lookup_entry_moved)
    have b: "lookup_entry ?fs1 (''disabled_'' @ X) = Some n" "lookup_entry ?fs1 X = None"
      using neq by (simp_all add: l1)
    show "success (fst (toggle_extension env ?fs1 (''disabled_'' @ X) True))"
      by (simp only: enable [OF ok b] fst_conv result.select_convs)
    have "lookup_entry (snd (toggle_extension env ?fs1 (''disabled_'' @ X) True)) =
        (lookup_entry ?fs1)(''disabled_'' @ X := None, X \<mapsto> n)"
      by (simp only: enable [OF ok b] snd_conv lookup_entry_moved)
    also have "\<dots> = lookup_entry fs"
      using a neq by (auto simp add: l1 fun_eq_iff)
    finally show "lookup_entry (snd (toggle_extension env ?fs1 (''disabled_'' @ X) True)) =
        lookup_entry fs" .
  next
    assume a: "rename_fault env = None \<and>
      lookup_entry fs (''disabled_'' @ X) = Some n \<and> lookup_entry fs X = None"
    then have b: "rename_fault env = None"
      "lookup_entry fs (''disabled_'' @ X) = Some n" "lookup_entry fs X = None"
      by simp_all
    show "success (fst (toggle_extension env fs (''disabled_'' @ X) True))"
      by (simp only: enable [OF b] fst_conv result.select_convs)
    show "lookup_entry (snd (toggle_extension env fs (''disabled_'' @ X) True)) =
         (lookup_entry fs)(''disabled_'' @ X := None, X \<mapsto> n)"
      by (simp only: enable [OF b] snd_conv lookup_entry_moved)
  next
    show "toggle_extension env fs X True =
        (\<lparr>success = True, extensionId = X, message = ''Extension enabled'',
          version = None, backupId = None, enabled = Some True\<rparr>, fs)"
      using plain by (simp add: toggle_extension_def toggle_try_def)
    show "toggle_extension env fs (''disabled_'' @ X) False =
        (\<lparr>success = True, extensionId = ''disabled_'' @ X, message = ''Extension disabled'',
          version = None, backupId = None, enabled = Some False\<rparr>, fs)"
      by (simp add: toggle_extension_def toggle_try_def)
  next
    assume "os_rename env fs X (''disabled_'' @ X) = Inl e"
    then show "toggle_extension env fs X False =
          (\<lparr>success = False, extensionId = X, message = ''Toggle failed: '' @ str_exn e,
            version = None, backupId = None, enabled = None\<rparr>, fs)"
      using plain by (simp add: toggle_extension_def toggle_try_def)
  next
    assume "os_rename env fs (''disabled_'' @ X) X = Inl e"
    then show "toggle_extension env fs (''disabled_'' @ X) True =
          (\<lparr>success = False, extensionId = ''disabled_'' @ X,
            message = ''Toggle failed: '' @ str_exn e,
            version = None, backupId = None, enabled = None\<rparr>, fs)"
      by (simp add: toggle_extension_def toggle_try_def)
  qed
qed

theorem toggle_renames_directory_witness:
  "filesystem_safe ''foo'' \<and> \<not> startswith ''foo'' ''disabled_'' \<and>
   rename_fault quiet_env = None \<and>
   lookup_entry sample_fs ''foo'' = Some (Dir [(''install.py'', File ''pass'')]) \<and>
   lookup_entry sample_fs ''disabled_foo'' = None \<and>
   success (fst (toggle_extension quiet_env sample_fs ''foo'' False)) \<and>
   lookup_entry (snd (toggle_extension quiet_env sample_fs ''foo'' False)) =
     (lookup_entry sample_fs)(''foo'' := None,
        ''disabled_foo'' \<mapsto> Dir [(''install.py'', File ''pass'')]) \<and>
   lookup_entry (snd (toggle_extension quiet_env
       (snd (toggle_extension quiet_env sample_fs ''foo'' False)) ''disabled_foo'' True)) =
     lookup_entry sample_fs"
proof -
  have h: "filesystem_safe ''foo''" "\<not> startswith ''foo'' ''disabled_''"
    by (simp_all add: filesystem_safe_def)
  have a: "rename_fault quiet_env = None \<and>
    lookup_entry sample_fs ''foo'' = Some (Dir [(''install.py'', File ''pass'')]) \<and>
    lookup_entry sample_fs (''disabled_'' @ ''foo'') = None"
    by (simp add: tree_defs sample_fs_def quiet_env_def)
  from toggle_renames_directory [OF h, where env = quiet_env and fs = sample_fs
      and n = "Dir [(''install.py'', File ''pass'')]", THEN conjunct1, THEN mp, OF a] h a
  show ?thesis by simp
qed

subsection \<open>Backup\<close>

text \<open>
  Claim C6, as stated, fails where the copy raises: \<^verbatim>\<open>foo\<close> exists, but a backup of
  the same name is there already (taken in the same second), so \<^verbatim>\<open>shutil.copytree\<close>
  raises \<^verbatim>\<open>FileExistsError\<close>; \<^verbatim>\<open>_create_backup\<close> returns no identifier and
  copies nothing.
\<close>

theorem create_backup_name_taken_counterexample:
  "filesystem_safe ''foo'' \<and>
   lookup_entry rerun_fs ''foo'' = Some (Dir [(''install.py'', File ''pass'')]) \<and>
   create_backup quiet_env rerun_fs ''foo'' ''before_install'' =
     (Inl (OSError FileExistsError ''[Errno 17] File exists''), rerun_fs)"
  by (simp add: create_backup_def shutil_copytree_def Let_def strftime_now tree_defs
      rerun_fs_def) (simp add: quiet_env_def)

text \<open>
  Claim C6, amended. For a directory name \<open>X\<close> and any \<open>reason\<close>:
  \<^item> an identifier that \<^verbatim>\<open>_create_backup\<close> returns is \<open>X\<close>, \<^verbatim>\<open>_\<close>, \<open>reason\<close>,
    \<^verbatim>\<open>_\<close> and the timestamp;
  \<^item> the timestamp does not depend on the microseconds of the clock, and is 15
    characters long (\<^verbatim>\<open>YYYYMMDD_HHMMSS\<close>) for a date of at most four digits of year;
  \<^item> if the directory \<open>X\<close> exists and the copy is carried out (the name is free in the
    backup directory and the copy does not fail), it returns the identifier, and the
    backup directory holds under it the whole tree of \<open>X\<close>;
  \<^item> if the directory exists and the name is taken in the backup directory, it raises
    \<^verbatim>\<open>FileExistsError\<close> and changes nothing;
  \<^item> if nothing is called \<open>X\<close>, it returns the identifier and changes nothing;
  \<^item> if the directory exists, the name is free and the copy fails, it raises the error
    of the copy, and the backup directory holds under the identifier what the failed
    copy had written.
\<close>

theorem create_backup_identifier_and_copy:
  assumes "filesystem_safe X"
  shows
   "(\<forall>b fs'. create_backup env fs X reason = (Inr b, fs') \<longrightarrow>
        b = X @ ''_'' @ reason @ ''_'' @ strftime (now env))
    \<and> strftime ((now env)\<lparr>microsecond := u\<rparr>) = strftime (now env)
    \<and> (year (now env) < 10000 \<and> month (now env) < 100 \<and> day (now env) < 100 \<and>
        hour (now env) < 100 \<and> minute (now env) < 100 \<and> second (now env) < 100 \<longrightarrow>
          length (strftime (now env)) = 15)
    \<and> (lookup_entry fs X = Some (Dir children) \<and>
        map_of (backup_dir fs) (X @ ''_'' @ reason @ ''_'' @ strftime (now env)) = None \<and>
        copytree_fault env = None \<longrightarrow>
          create_backup env fs X reason =
            (Inr (X @ ''_'' @ reason @ ''_'' @ strftime (now env)),
             fs\<lparr>backup_dir := AList.update (X @ ''_'' @ reason @ ''_'' @ strftime (now env))
                                 (Dir children) (backup_dir fs)\<rparr>))
    \<and> (lookup_entry fs X = Some (Dir children) \<and>
        map_of (backup_dir fs) (X @ ''_'' @ reason @ ''_'' @ strftime (now env)) \<noteq> None \<longrightarrow>
          create_backup env fs X reason = (Inl (os_error env FileExistsError), fs))
    \<and> (lookup_entry fs X = None \<longrightarrow>
          create_backup env fs X reason =
            (Inr (X @ ''_'' @ reason @ ''_'' @ strftime (now env)), fs))
    \<and> (lookup_entry fs X = Some (Dir children) \<and>
        map_of (backup_dir fs) (X @ ''_'' @ reason @ ''_'' @ strftime (now env)) = None \<and>
        copytree_fault env = Some (msg, residue) \<longrightarrow>
          create_backup env fs X reason =
            (Inl (OtherException msg),
             fs\<lparr>backup_dir :=
                  (case residue of
                     None \<Rightarrow> backup_dir fs
                   | Some partial \<Rightarrow>
                       AList.update (X @ ''_'' @ reason @ ''_'' @ strftime (now env)) partial
                         (backup_dir fs))\<rparr>))"
proof (intro conjI allI impI)
  fix b fs'
  assume "create_backup env fs X reason = (Inr b, fs')"
  then show "b = X @ ''_'' @ reason @ ''_'' @ strftime (now env)"
    by (auto simp add: create_backup_def Let_def split: option.splits sum.splits prod.splits)
next
  show "strftime ((now env)\<lparr>microsecond := u\<rparr>) = strftime (now env)"
    by (simp add: strftime_def)
next
  assume "year (now env) < 10000 \<and> month (now env) < 100 \<and> day (now env) < 100 \<and>
        hour (now env) < 100 \<and> minute (now env) < 100 \<and> second (now env) < 100"
  then show "length (strftime (now env)) = 15"
    by (simp add: length_strftime)
next
  assume "lookup_entry fs X = Some (Dir children) \<and>
        map_of (backup_dir fs) (X @ ''_'' @ reason @ ''_'' @ strftime (now env)) = None \<and>
        copytree_fault env = None"
  then show "create_backup env fs X reason =
            (Inr (X @ ''_'' @ reason @ ''_'' @ strftime (now env)),
             fs\<lparr>backup_dir := AList.update (X @ ''_'' @ reason @ ''_'' @ strftime (now env))
                                 (Dir children) (backup_dir fs)\<rparr>)"
    by (simp add: create_backup_copies)
next
  assume "lookup_entry fs X = Some (Dir children) \<and>
        map_of (backup_dir fs) (X @ ''_'' @ reason @ ''_'' @ strftime (now env)) \<noteq> None"
  then show "create_backup env fs X reason = (Inl (os_error env FileExistsError), fs)"
    by (auto simp add: create_backup_def shutil_copytree_def Let_def)
next
  assume "lookup_entry fs X = None"
  then show "create_backup env fs X reason =
            (Inr (X @ ''_'' @ reason @ ''_'' @ strftime (now env)), fs)"
    by (simp add: create_backup_absent)
next
  assume "lookup_entry fs X = Some (Dir children) \<and>
        map_of (backup_dir fs) (X @ ''_'' @ reason @ ''_'' @ strftime (now env)) = None \<and>
        copytree_fault env = Some (msg, residue)"
  then show "create_backup env fs X reason =
            (Inl (OtherException msg),
             fs\<lparr>backup_dir :=
                  (case residue of
                     None \<Rightarrow> backup_dir fs
                   | Some partial \<Rightarrow>
                       AList.update (X @ ''_'' @ reason @ ''_'' @ strftime (now env)) partial
                         (backup_dir fs))\<rparr>)"
    by (simp add: create_backup_def shutil_copytree_def Let_def cong: option.case_cong)
qed

theorem create_backup_identifier_and_copy_witness:
  "filesystem_safe ''foo'' \<and> filesystem_safe ''ghost'' \<and>
   lookup_entry sample_fs ''foo'' = Some (Dir [(''install.py'', File ''pass'')]) \<and>
   lookup_entry sample_fs ''ghost'' = None \<and>
   copytree_fault quiet_env = None \<and>
   map_of (backup_dir sample_fs) ''foo_before_uninstall_20240309_070542'' = None \<and>
   length (strftime (now quiet_env)) = 15 \<and>
   create_backup quiet_env sample_fs ''foo'' ''before_uninstall'' =
     (Inr ''foo_before_uninstall_20240309_070542'',
      sample_fs\<lparr>backup_dir := [(''foo_before_uninstall_20240309_070542'',
                                  Dir [(''install.py'', File ''pass'')])]\<rparr>) \<and>
   create_backup quiet_env sample_fs ''ghost'' ''before_uninstall'' =
     (Inr ''ghost_before_uninstall_20240309_070542'', sample_fs)"
proof -
  have safe: "filesystem_safe ''foo''" "filesystem_safe ''ghost''"
    by (simp_all add: filesystem_safe_def)
  have h: "lookup_entry sample_fs ''foo'' = Some (Dir [(''install.py'', File ''pass'')])"
    "lookup_entry sample_fs ''ghost'' = None"
    "copytree_fault quiet_env = None"
    "backup_dir sample_fs = []"
    by (simp_all add: tree_defs sample_fs_def quiet_env_def)
  note foo = create_backup_identifier_and_copy [OF safe(1), of quiet_env sample_fs
      "''before_uninstall''" 0 "[(''install.py'', File ''pass'')]"]
  note ghost = create_backup_identifier_and_copy [OF safe(2), of quiet_env sample_fs
      "''before_uninstall''" 0 "[]"]
  have a: "lookup_entry sample_fs ''foo'' = Some (Dir [(''install.py'', File ''pass'')]) \<and>
      map_of (backup_dir sample_fs)
        (''foo'' @ ''_'' @ ''before_uninstall'' @ ''_'' @ strftime (now quiet_env)) = None \<and>
      copytree_fault quiet_env = None"
    by (simp add: h)
  have c1: "create_backup quiet_env sample_fs ''foo'' ''before_uninstall'' =
     (Inr ''foo_before_uninstall_20240309_070542'',
      sample_fs\<lparr>backup_dir := [(''foo_before_uninstall_20240309_070542'',
                                  Dir [(''install.py'', File ''pass'')])]\<rparr>)"
    using foo [THEN conjunct2, THEN conjunct2, THEN conjunct2, THEN conjunct1, THEN mp, OF a]
    by (simp add: strftime_now h(4))
  have c2: "create_backup quiet_env sample_fs ''ghost'' ''before_uninstall'' =
     (Inr ''ghost_before_uninstall_20240309_070542'', sample_fs)"
    using ghost [THEN conjunct2, THEN conjunct2, THEN conjunct2, THEN conjunct2,
        THEN conjunct2, THEN conjunct1, THEN mp, OF h(2)]
    by (simp add: strftime_now)
  have l: "length (strftime (now quiet_env)) = 15"
    by (simp add: strftime_now)
  show ?thesis
    by (simp only: safe h c1 c2 l simp_thms map_of.simps)
qed

subsection \<open>Uninstall\<close>

text \<open>
  Claim C4. For a directory name \<open>X\<close>:
  \<^item> if nothing is called \<open>X\<close> in the extensions directory, \<^verbatim>\<open>uninstall_extension\<close>
    returns the failure result with the message \<^verbatim>\<open>Extension not found\<close>, and the tree
    (extensions and backups) is as before;
  \<^item> if the directory \<open>X\<close> exists and every step is carried out (the copy and the
    removal), it returns the success result with the identifier of the
    \<^verbatim>\<open>before_uninstall\<close> backup; afterwards the backup directory holds the whole tree
    of \<open>X\<close> under that identifier, and nothing is called \<open>X\<close> any more.
\<close>

theorem uninstall_not_found_or_backup_then_delete:
  assumes "filesystem_safe X"
  shows
   "(lookup_entry fs X = None \<longrightarrow>
       uninstall_extension env fs X =
         (\<lparr>success = False, extensionId = X, message = ''Extension not found'',
           version = None, backupId = None, enabled = None\<rparr>, fs))
    \<and> (lookup_entry fs X = Some (Dir children) \<and>
        map_of (backup_dir fs) (X @ ''_'' @ ''before_uninstall'' @ ''_'' @ strftime (now env)) = None \<and>
        copytree_fault env = None \<and> rmtree_fault env = None \<longrightarrow>
       uninstall_extension env fs X =
         (\<lparr>success = True, extensionId = X, message = ''Extension uninstalled successfully'',
           version = None,
           backupId = Some (X @ ''_'' @ ''before_uninstall'' @ ''_'' @ strftime (now env)),
           enabled = None\<rparr>,
          fs\<lparr>extensions_dir := Some (Dir (AList.delete X (entries (extensions_dir fs)))),
             backup_dir := AList.update (X @ ''_'' @ ''before_uninstall'' @ ''_'' @ strftime (now env))
                             (Dir children) (backup_dir fs)\<rparr>) \<and>
       lookup_entry (snd (uninstall_extension env fs X)) X = None \<and>
       map_of (backup_dir (snd (uninstall_extension env fs X)))
         (X @ ''_'' @ ''before_uninstall'' @ ''_'' @ strftime (now env)) = Some (Dir children))"
proof (intro conjI impI)
  assume "lookup_entry fs X = None"
  then show "uninstall_extension env fs X =
         (\<lparr>success = False, extensionId = X, message = ''Extension not found'',
           version = None, backupId = None, enabled = None\<rparr>, fs)"
    by (rule uninstall_not_found)
next
  assume a: "lookup_entry fs X = Some (Dir children) \<and>
        map_of (backup_dir fs) (X @ ''_'' @ ''before_uninstall'' @ ''_'' @ strftime (now env)) = None \<and>
        copytree_fault env = None \<and> rmtree_fault env = None"
  then have bk: "create_backup env fs X ''before_uninstall'' =
     (Inr (X @ ''_'' @ ''before_uninstall'' @ ''_'' @ strftime (now env)),
      fs\<lparr>backup_dir := AList.update (X @ ''_'' @ ''before_uninstall'' @ ''_'' @ strftime (now env))
                          (Dir children) (backup_dir fs)\<rparr>)"
    by (simp only: create_backup_copies)
  from a show u: "uninstall_extension env fs X =
         (\<lparr>success = True, extensionId = X, message = ''Extension uninstalled successfully'',
           version = None,
           backupId = Some (X @ ''_'' @ ''before_uninstall'' @ ''_'' @ strftime (now env)),
           enabled = None\<rparr>,
          fs\<lparr>extensions_dir := Some (Dir (AList.delete X (entries (extensions_dir fs)))),
             backup_dir := AList.update (X @ ''_'' @ ''before_uninstall'' @ ''_'' @ strftime (now env))
                             (Dir children) (backup_dir fs)\<rparr>)"
    by (simp add: uninstall_extension_def uninstall_try_def os_path_exists_def bk
        shutil_rmtree_def lookup_entry_def)
  show "lookup_entry (snd (uninstall_extension env fs X)) X = None"
    by (simp only: u snd_conv) (simp add: lookup_entry_def entries_def delete_conv')
  show "map_of (backup_dir (snd (uninstall_extension env fs X)))
         (X @ ''_'' @ ''before_uninstall'' @ ''_'' @ strftime (now env)) = Some (Dir children)"
    by (simp only: u snd_conv) (simp add: update_conv')
qed

theorem uninstall_not_found_or_backup_then_delete_witness:
  "filesystem_safe ''foo'' \<and> filesystem_safe ''ghost'' \<and>
   lookup_entry sample_fs ''ghost'' = None \<and>
   uninstall_extension quiet_env sample_fs ''ghost'' =
     (\<lparr>success = False, extensionId = ''ghost'', message = ''Extension not found'',
       version = None, backupId = None, enabled = None\<rparr>, sample_fs) \<and>
   lookup_entry sample_fs ''foo'' = Some (Dir [(''install.py'', File ''pass'')]) \<and>
   copytree_fault quiet_env = None \<and> rmtree_fault quiet_env = None \<and>
   uninstall_extension quiet_env sample_fs ''foo'' =
     (\<lparr>success = True, extensionId = ''foo'',
       message = ''Extension uninstalled successfully'', version = None,
       backupId = Some ''foo_before_uninstall_20240309_070542'', enabled = None\<rparr>,
      \<lparr>extensions_dir = Some (Dir [(''.git'', Dir [(''README.md'', File [])]),
                                   (''bar'', Dir []),
                                   (''notes.txt'', File ''todo'')]),
       backup_dir = [(''foo_before_uninstall_20240309_070542'',
                      Dir [(''install.py'', File ''pass'')])],
       temp_dir = []\<rparr>)"
proof -
  have safe: "filesystem_safe ''foo''" "filesystem_safe ''ghost''"
    by (simp_all add: filesystem_safe_def)
  have h: "lookup_entry sample_fs ''foo'' = Some (Dir [(''install.py'', File ''pass'')])"
    "lookup_entry sample_fs ''ghost'' = None"
    "copytree_fault quiet_env = None" "rmtree_fault quiet_env = None"
    by (simp_all add: tree_defs sample_fs_def quiet_env_def)
  have a: "lookup_entry sample_fs ''foo'' = Some (Dir [(''install.py'', File ''pass'')]) \<and>
      map_of (backup_dir sample_fs)
        (''foo'' @ ''_'' @ ''before_uninstall'' @ ''_'' @ strftime (now quiet_env)) = None \<and>
      copytree_fault quiet_env = None \<and> rmtree_fault quiet_env = None"
    by (simp add: h) (simp add: sample_fs_def)
  note foo = uninstall_not_found_or_backup_then_delete [OF safe(1),
      where fs = sample_fs and children = "[(''install.py'', File ''pass'')]"
        and env = quiet_env]
  note ghost = uninstall_not_found_or_backup_then_delete [OF safe(2),
      where fs = sample_fs and children = "[]" and env = quiet_env]
  have c1: "uninstall_extension quiet_env sample_fs ''ghost'' =
     (\<lparr>success = False, extensionId = ''ghost'', message = ''Extension not found'',
       version = None, backupId = None, enabled = None\<rparr>, sample_fs)"
    using ghost [THEN conjunct1, THEN mp, OF h(2)] .
  have c2: "uninstall_extension quiet_env sample_fs ''foo'' =
     (\<lparr>success = True, extensionId = ''foo'',
       message = ''Extension uninstalled successfully'', version = None,
       backupId = Some ''foo_before_uninstall_20240309_070542'', enabled = None\<rparr>,
      \<lparr>extensions_dir = Some (Dir [(''.git'', Dir [(''README.md'', File [])]),
                                   (''bar'', Dir []),
                                   (''notes.txt'', File ''todo'')]),
       backup_dir = [(''foo_before_uninstall_20240309_070542'',
                      Dir [(''install.py'', File ''pass'')])],
       temp_dir = []\<rparr>)"
    using foo [THEN conjunct2, THEN mp, OF a, THEN conjunct1]
    by (simp add: strftime_now) (simp add: sample_fs_def entries_def)
  show ?thesis
    by (simp only: safe h c1 c2 simp_thms)
qed

text \<open>
  Claim C7, as stated, fails in its last words: the state is not unchanged. With a file
  of \<^verbatim>\<open>foo\<close> unreadable, \<^verbatim>\<open>shutil.copytree\<close> has created the backup directory
  when it raises; uninstalling \<^verbatim>\<open>foo\<close> returns the failure and keeps \<^verbatim>\<open>foo\<close>, but the
  backup directory, empty before, holds the new entry.
\<close>

theorem uninstall_failed_backup_residue_counterexample:
  "lookup_entry sample_fs ''foo'' = Some (Dir [(''install.py'', File ''pass'')]) \<and>
   backup_dir sample_fs = [] \<and>
   uninstall_extension unreadable_env sample_fs ''foo'' =
     (\<lparr>success = False, extensionId = ''foo'',
       message = ''Uninstallation failed: [Errno 13] Permission denied'',
       version = None, backupId = None, enabled = None\<rparr>,
      sample_fs\<lparr>backup_dir := [(''foo_before_uninstall_20240309_070542'', Dir [])]\<rparr>) \<and>
   backup_dir (snd (uninstall_extension unreadable_env sample_fs ''foo'')) \<noteq>
     backup_dir sample_fs"
  by (simp add: uninstall_extension_def uninstall_try_def create_backup_def
      shutil_copytree_def Let_def strftime_def str_nat.simps digit_char_def zfill_def
      tree_defs sample_fs_def unreadable_env_def quiet_env_def)

text \<open>
  Claim C7, amended. If \<open>X\<close> exists and the copy of the backup raises \<open>e\<close>, the exception
  reaches the \<^verbatim>\<open>except\<close> of \<^verbatim>\<open>uninstall_extension\<close>: the result is the failure
  carrying the text of \<open>e\<close>, and \<^verbatim>\<open>shutil.rmtree\<close> is never called. The extensions
  directory and the directory of temporary files are as before, so \<open>X\<close> is still there
  with all it held; the backup directory is as the failed copy left it.
\<close>

theorem uninstall_aborts_when_backup_fails:
  assumes "filesystem_safe X"
    and "lookup_entry fs X = Some src"
    and "shutil_copytree env src (backup_dir fs)
           (X @ ''_'' @ ''before_uninstall'' @ ''_'' @ strftime (now env)) = (Inl e, backups)"
  shows
   "uninstall_extension env fs X =
     (\<lparr>success = False, extensionId = X, message = ''Uninstallation failed: '' @ str_exn e,
       version = None, backupId = None, enabled = None\<rparr>, fs\<lparr>backup_dir := backups\<rparr>)
    \<and> extensions_dir (snd (uninstall_extension env fs X)) = extensions_dir fs
    \<and> lookup_entry (snd (uninstall_extension env fs X)) X = Some src
    \<and> temp_dir (snd (uninstall_extension env fs X)) = temp_dir fs"
proof -
  have u: "uninstall_extension env fs X =
     (\<lparr>success = False, extensionId = X, message = ''Uninstallation failed: '' @ str_exn e,
       version = None, backupId = None, enabled = None\<rparr>, fs\<lparr>backup_dir := backups\<rparr>)"
    using assms(2,3)
    by (simp add: uninstall_extension_def uninstall_try_def os_path_exists_def
        create_backup_def Let_def)
  show ?thesis
    using assms(2) by (simp only: u snd_conv) simp
qed

theorem uninstall_aborts_when_backup_fails_witness:
  "filesystem_safe ''foo'' \<and>
   lookup_entry sample_fs ''foo'' = Some (Dir [(''install.py'', File ''pass'')]) \<and>
   shutil_copytree disk_full_env (Dir [(''install.py'', File ''pass'')]) (backup_dir sample_fs)
     ''foo_before_uninstall_20240309_070542'' =
       (Inl (OtherException ''[Errno 28] No space left on device''), backup_dir sample_fs) \<and>
   uninstall_extension disk_full_env sample_fs ''foo'' =
     (\<lparr>success = False, extensionId = ''foo'',
       message = ''Uninstallation failed: [Errno 28] No space left on device'',
       version = None, backupId = None, enabled = None\<rparr>, sample_fs) \<and>
   lookup_entry (snd (uninstall_extension disk_full_env sample_fs ''foo'')) ''foo'' =
     Some (Dir [(''install.py'', File ''pass'')])"
proof -
  have n: "strftime (now disk_full_env) = ''20240309_070542''"
    using strftime_now by (simp add: disk_full_env_def quiet_env_def)
  have h: "filesystem_safe ''foo''"
    "lookup_entry sample_fs ''foo'' = Some (Dir [(''install.py'', File ''pass'')])"
    "shutil_copytree disk_full_env (Dir [(''install.py'', File ''pass'')]) (backup_dir sample_fs)
       (''foo'' @ ''_'' @ ''before_uninstall'' @ ''_'' @ strftime (now disk_full_env)) =
         (Inl (OtherException ''[Errno 28] No space left on device''), backup_dir sample_fs)"
    by (simp_all add: n tree_defs sample_fs_def shutil_copytree_def disk_full_env_def quiet_env_def)
  from uninstall_aborts_when_backup_fails [OF h] h n
  show ?thesis by simp
qed

subsection \<open>Install\<close>

text \<open>
  Claim C3, as stated, fails where the target exists: the backup is taken before the
  install method is looked at. Installing \<^verbatim>\<open>foo\<close> by the unknown method \<^verbatim>\<open>svn\<close>
  while \<^verbatim>\<open>foo\<close> is installed returns the failure, and the backup directory, empty
  before, holds a copy of \<^verbatim>\<open>foo\<close> afterwards.
\<close>

theorem install_unsupported_method_counterexample:
  "filesystem_safe (request_extensionId foo_request) \<and>
   installMethod (foo_metadata ''svn'') \<noteq> ''git_clone'' \<and>
   installMethod (foo_metadata ''svn'') \<noteq> ''download_zip'' \<and>
   backup_dir sample_fs = [] \<and>
   install_extension quiet_env sample_fs foo_request (foo_metadata ''svn'') =
     (\<lparr>success = False, extensionId = ''foo'',
       message = ''Installation failed: 400: Unsupported install method: svn'',
       version = None, backupId = None, enabled = None\<rparr>,
      sample_fs\<lparr>backup_dir := [(''foo_before_install_20240309_070542'',
                                  Dir [(''install.py'', File ''pass'')])]\<rparr>)"
proof -
  have l: "lookup_entry sample_fs ''foo'' = Some (Dir [(''install.py'', File ''pass'')])"
    "backup_dir sample_fs = []" "copytree_fault quiet_env = None"
    by (simp_all add: tree_defs sample_fs_def quiet_env_def)
  have b: "backup_existing quiet_env sample_fs ''foo'' =
      (Inr (), sample_fs\<lparr>backup_dir := [(''foo_before_install_20240309_070542'',
                                  Dir [(''install.py'', File ''pass'')])]\<rparr>)"
    using backup_existing_copies [of sample_fs "''foo''" "[(''install.py'', File ''pass'')]" quiet_env]
    by (simp add: l strftime_now)
  have i: "request_extensionId foo_request = ''foo''" "installMethod (foo_metadata ''svn'') = ''svn''"
    by (simp_all add: foo_request_def foo_metadata_def installed_fs_def)
  have m: "materialize quiet_env fs1 foo_request (foo_metadata ''svn'') =
     (Inl (HTTPException 400 ''Unsupported install method: svn''), fs1)" for fs1
    using materialize_unsupported [of "foo_metadata ''svn''" quiet_env fs1 foo_request]
    by (simp add: i)
  have "install_extension quiet_env sample_fs foo_request (foo_metadata ''svn'') =
     (\<lparr>success = False, extensionId = ''foo'',
       message = ''Installation failed: 400: Unsupported install method: svn'',
       version = None, backupId = None, enabled = None\<rparr>,
      sample_fs\<lparr>backup_dir := [(''foo_before_install_20240309_070542'',
                                  Dir [(''install.py'', File ''pass'')])]\<rparr>)"
    using install_extension_materialize_raised [of quiet_env sample_fs foo_request, OF _ m]
    by (simp add: i b str_nat_400)
  then show ?thesis
    by (simp add: i l filesystem_safe_def)
qed

text \<open>
  Claim C3, amended. Let the install method be neither \<^verbatim>\<open>git_clone\<close> nor
  \<^verbatim>\<open>download_zip\<close>, and the identifier a directory name. Then
  \<^verbatim>\<open>install_extension\<close> returns a failure, and the extensions directory and the
  directory of temporary files are as before: a target that did not exist does not exist
  afterwards. Moreover:
  \<^item> if the target does not exist, nothing at all is changed, and the message is
    \<^verbatim>\<open>Installation failed: 400: Unsupported install method: \<close> and the method;
  \<^item> if the target directory exists and the copy of the \<^verbatim>\<open>before_install\<close> backup is
    carried out, the message is the same and the one change is the new backup;
  \<^item> if the target exists and the copy raises \<open>e\<close>, the message carries the text of
    \<open>e\<close>, and the one place that may have changed is the backup directory, which is as
    the failed copy left it.
\<close>

theorem install_unsupported_method:
  assumes safe: "filesystem_safe (request_extensionId request)"
    and m: "installMethod metadata \<noteq> ''git_clone''" "installMethod metadata \<noteq> ''download_zip''"
  shows
   "\<not> success (fst (install_extension env fs request metadata))
    \<and> extensions_dir (snd (install_extension env fs request metadata)) = extensions_dir fs
    \<and> temp_dir (snd (install_extension env fs request metadata)) = temp_dir fs
    \<and> (lookup_entry fs (request_extensionId request) = None \<longrightarrow>
         install_extension env fs request metadata =
           (\<lparr>success = False, extensionId = request_extensionId request,
             message = ''Installation failed: 400: Unsupported install method: ''
                         @ installMethod metadata,
             version = None, backupId = None, enabled = None\<rparr>, fs))
    \<and> (lookup_entry fs (request_extensionId request) = Some (Dir children) \<and>
        map_of (backup_dir fs)
          (request_extensionId request @ ''_'' @ ''before_install'' @ ''_'' @ strftime (now env)) = None \<and>
        copytree_fault env = None \<longrightarrow>
         install_extension env fs request metadata =
           (\<lparr>success = False, extensionId = request_extensionId request,
             message = ''Installation failed: 400: Unsupported install method: ''
                         @ installMethod metadata,
             version = None, backupId = None, enabled = None\<rparr>,
            fs\<lparr>backup_dir :=
                 AList.update
                   (request_extensionId request @ ''_'' @ ''before_install'' @ ''_'' @ strftime (now env))
                   (Dir children) (backup_dir fs)\<rparr>))
    \<and> (lookup_entry fs (request_extensionId request) = Some src \<and>
        shutil_copytree env src (backup_dir fs)
          (request_extensionId request @ ''_'' @ ''before_install'' @ ''_'' @ strftime (now env))
            = (Inl e, backups) \<longrightarrow>
         install_extension env fs request metadata =
           (\<lparr>success = False, extensionId = request_extensionId request,
             message = ''Installation failed: '' @ str_exn e,
             version = None, backupId = None, enabled = None\<rparr>,
            fs\<lparr>backup_dir := backups\<rparr>))"
proof -
  let ?X = "request_extensionId request"
  let ?unsupported = "HTTPException 400 (''Unsupported install method: '' @ installMethod metadata)"
  have mat: "materialize env g request metadata = (Inl ?unsupported, g)" for g
    using m by (rule materialize_unsupported)
  obtain r fs1 where b: "backup_existing env fs ?X = (r, fs1)"
    by (cases "backup_existing env fs ?X")
  have frame: "extensions_dir fs1 = extensions_dir fs" "temp_dir fs1 = temp_dir fs"
    using backup_existing_frame [OF b] by simp_all
  have general: "\<not> success (fst (install_extension env fs request metadata)) \<and>
      snd (install_extension env fs request metadata) = fs1"
  proof (cases r)
    case (Inl e)
    with b show ?thesis by (simp add: install_extension_backup_raised)
  next
    case (Inr u)
    with b show ?thesis by (simp add: install_extension_materialize_raised [OF _ mat])
  qed
  show ?thesis
  proof (intro conjI impI)
    show "\<not> success (fst (install_extension env fs request metadata))"
      using general by simp
    show "extensions_dir (snd (install_extension env fs request metadata)) = extensions_dir fs"
      using general frame by simp
    show "temp_dir (snd (install_extension env fs request metadata)) = temp_dir fs"
      using general frame by simp
  next
    assume "lookup_entry fs ?X = None"
    then have "backup_existing env fs ?X = (Inr (), fs)"
      by (rule backup_existing_absent)
    then show "install_extension env fs request metadata =
           (\<lparr>success = False, extensionId = ?X,
             message = ''Installation failed: 400: Unsupported install method: ''
                         @ installMethod metadata,
             version = None, backupId = None, enabled = None\<rparr>, fs)"
      by (simp add: install_extension_materialize_raised [OF _ mat] str_nat_400)
  next
    assume "lookup_entry fs ?X = Some (Dir children) \<and>
        map_of (backup_dir fs) (?X @ ''_'' @ ''before_install'' @ ''_'' @ strftime (now env)) = None \<and>
        copytree_fault env = None"
    then have "backup_existing env fs ?X =
       (Inr (), fs\<lparr>backup_dir := AList.update (?X @ ''_'' @ ''before_install'' @ ''_'' @ strftime (now env))
                          (Dir children) (backup_dir fs)\<rparr>)"
      by (simp only: backup_existing_copies)
    then show "install_extension env fs request metadata =
           (\<lparr>success = False, extensionId = ?X,
             message = ''Installation failed: 400: Unsupported install method: ''
                         @ installMethod metadata,
             version = None, backupId = None, enabled = None\<rparr>,
            fs\<lparr>backup_dir :=
                 AList.update (?X @ ''_'' @ ''before_install'' @ ''_'' @ strftime (now env))
                   (Dir children) (backup_dir fs)\<rparr>)"
      by (simp add: install_extension_materialize_raised [OF _ mat] str_nat_400)
  next
    assume "lookup_entry fs ?X = Some src \<and>
        shutil_copytree env src (backup_dir fs)
          (?X @ ''_'' @ ''before_install'' @ ''_'' @ strftime (now env)) = (Inl e, backups)"
    then have "backup_existing env fs ?X = (Inl e, fs\<lparr>backup_dir := backups\<rparr>)"
      by (simp only: backup_existing_raises)
    then show "install_extension env fs request metadata =
           (\<lparr>success = False, extensionId = ?X,
             message = ''Installation failed: '' @ str_exn e,
             version = None, backupId = None, enabled = None\<rparr>,
            fs\<lparr>backup_dir := backups\<rparr>)"
      by (rule install_extension_backup_raised)
  qed
qed

theorem install_unsupported_method_witness:
  "filesystem_safe (request_extensionId foo_request) \<and>
   installMethod (foo_metadata ''svn'') \<noteq> ''git_clone'' \<and>
   installMethod (foo_metadata ''svn'') \<noteq> ''download_zip'' \<and>
   lookup_entry no_extensions_fs (request_extensionId foo_request) = None \<and>
   install_extension quiet_env no_extensions_fs foo_request (foo_metadata ''svn'') =
     (\<lparr>success = False, extensionId = ''foo'',
       message = ''Installation failed: 400: Unsupported install method: svn'',
       version = None, backupId = None, enabled = None\<rparr>, no_extensions_fs)"
proof -
  have h: "filesystem_safe (request_extensionId foo_request)"
    "installMethod (foo_metadata ''svn'') \<noteq> ''git_clone''"
    "installMethod (foo_metadata ''svn'') \<noteq> ''download_zip''"
    by (simp_all add: foo_request_def foo_metadata_def installed_fs_def filesystem_safe_def)
  have l: "lookup_entry no_extensions_fs (request_extensionId foo_request) = None"
    by (simp add: tree_defs no_extensions_fs_def)
  have i: "request_extensionId foo_request = ''foo''"
    "installMethod (foo_metadata ''svn'') = ''svn''"
    by (simp_all add: foo_request_def foo_metadata_def installed_fs_def)
  have "install_extension quiet_env no_extensions_fs foo_request (foo_metadata ''svn'') =
     (\<lparr>success = False, extensionId = ''foo'',
       message = ''Installation failed: 400: Unsupported install method: svn'',
       version = None, backupId = None, enabled = None\<rparr>, no_extensions_fs)"
    using install_unsupported_method [OF h, where env = quiet_env and fs = no_extensions_fs,
        THEN conjunct2, THEN conjunct2, THEN conjunct2, THEN conjunct1, THEN mp, OF l]
    by (simp add: i)
  with h l show ?thesis by (simp only: simp_thms)
qed

text \<open>
  Claim C8, as stated, fails in two places. When the backup raises (here: a backup of
  this second is there already), the install fails with the old directory standing and
  never removed. When the clone fails after \<^verbatim>\<open>git\<close> has created the directory (the
  checkout failed), the install fails and a directory does exist at the target path.
\<close>

theorem git_clone_old_or_new_directory_counterexample:
  "installMethod (foo_metadata ''git_clone'') = ''git_clone'' \<and>
   lookup_entry rerun_fs ''foo'' = Some (Dir [(''install.py'', File ''pass'')]) \<and>
   install_extension offline_env rerun_fs foo_request (foo_metadata ''git_clone'') =
     (\<lparr>success = False, extensionId = ''foo'',
       message = ''Installation failed: [Errno 17] File exists'',
       version = None, backupId = None, enabled = None\<rparr>, rerun_fs) \<and>
   lookup_entry sample_fs ''foo'' = Some (Dir [(''install.py'', File ''pass'')]) \<and>
   fst (install_extension broken_checkout_env sample_fs foo_request (foo_metadata ''git_clone'')) =
     \<lparr>success = False, extensionId = ''foo'',
      message = ''Installation failed: 500: Git clone failed: Clone succeeded, but checkout failed'',
      version = None, backupId = None, enabled = None\<rparr> \<and>
   lookup_entry
     (snd (install_extension broken_checkout_env sample_fs foo_request (foo_metadata ''git_clone'')))
     ''foo'' = Some (Dir [(''.git'', Dir [])])"
  by (simp add: install_extension_def install_try_def backup_existing_def create_backup_def
      shutil_copytree_def Let_def materialize_def git_clone_extension_def git_clone_try_def
      shutil_rmtree_def left_behind_def put_entry_def set_entry_def
      foo_request_def foo_metadata_def
      strftime_def str_nat.simps digit_char_def zfill_def
      tree_defs sample_fs_def rerun_fs_def offline_env_def broken_checkout_env_def quiet_env_def)

text \<open>
  Claim C8, amended. Let the install method be \<^verbatim>\<open>git_clone\<close> and let the target
  directory exist.
  \<^item> If the \<^verbatim>\<open>before_install\<close> backup and \<^verbatim>\<open>shutil.rmtree\<close> are carried out and
    the clone raises, \<^verbatim>\<open>install_extension\<close> returns the failure
    \<^verbatim>\<open>Installation failed: 500: Git clone failed: \<close> with the text of the error.
    Afterwards the target path holds what the failed clone left there and nothing of
    the old directory: nothing at all when the clone left nothing. The old tree is the
    backup; all other entries are as before.
  \<^item> If the removal is carried out and the clone delivers a tree,
    \<^verbatim>\<open>_git_clone_extension\<close> returns, and the target is that tree (or the tree a
    checkout of the requested version made of it) put where the old directory had been
    removed: nothing of the old directory is part of it.
  \<^item> If the copy of the backup raises, the install fails with that error before
    anything is removed or cloned: the old directory stands.
  \<^item> If the backup is carried out and the removal raises, the install fails with
    \<^verbatim>\<open>Installation failed: 500: Git clone failed: \<close> and the text of that error, before
    any clone; the target is what the failed removal left of the old directory.
\<close>

theorem git_clone_removes_old_directory_first:
  assumes safe: "filesystem_safe (request_extensionId request)"
    and by_clone: "installMethod metadata = ''git_clone''"
    and old: "lookup_entry fs (request_extensionId request) = Some (Dir old)"
  shows
   "(map_of (backup_dir fs)
       (request_extensionId request @ ''_'' @ ''before_install'' @ ''_'' @ strftime (now env)) = None \<and>
     copytree_fault env = None \<and> rmtree_fault env = None \<and>
     clone_from env (repository metadata) = Inl (msg, residue) \<longrightarrow>
       fst (install_extension env fs request metadata) =
         \<lparr>success = False, extensionId = request_extensionId request,
          message = ''Installation failed: 500: Git clone failed: '' @ msg,
          version = None, backupId = None, enabled = None\<rparr> \<and>
       lookup_entry (snd (install_extension env fs request metadata)) =
         (lookup_entry fs)(request_extensionId request := residue) \<and>
       map_of (backup_dir (snd (install_extension env fs request metadata)))
         (request_extensionId request @ ''_'' @ ''before_install'' @ ''_'' @ strftime (now env))
           = Some (Dir old))
    \<and> (rmtree_fault env = None \<and> clone_from env (repository metadata) = Inr tree \<longrightarrow>
       (\<exists>t. git_clone_extension env fs (repository metadata) (request_extensionId request) v
              = (Inr (), set_entry
                   (fs\<lparr>extensions_dir :=
                        Some (Dir (AList.delete (request_extensionId request)
                                     (entries (extensions_dir fs))))\<rparr>)
                   (request_extensionId request) t) \<and>
            lookup_entry
              (snd (git_clone_extension env fs (repository metadata) (request_extensionId request) v))
              = (lookup_entry fs)(request_extensionId request \<mapsto> t) \<and>
            (t = tree \<or>
             (\<exists>ver. v = Some ver \<and>
                (git_checkout env ver tree = Inr t \<or>
                 (\<exists>m. git_checkout env ver tree = Inl (m, Some t)))))))
    \<and> (shutil_copytree env (Dir old) (backup_dir fs)
          (request_extensionId request @ ''_'' @ ''before_install'' @ ''_'' @ strftime (now env))
            = (Inl e, backups) \<longrightarrow>
       install_extension env fs request metadata =
         (\<lparr>success = False, extensionId = request_extensionId request,
           message = ''Installation failed: '' @ str_exn e,
           version = None, backupId = None, enabled = None\<rparr>,
          fs\<lparr>backup_dir := backups\<rparr>))
    \<and> (map_of (backup_dir fs)
          (request_extensionId request @ ''_'' @ ''before_install'' @ ''_'' @ strftime (now env)) = None \<and>
        copytree_fault env = None \<and> rmtree_fault env = Some (msg, residue) \<longrightarrow>
       fst (install_extension env fs request metadata) =
         \<lparr>success = False, extensionId = request_extensionId request,
          message = ''Installation failed: 500: Git clone failed: '' @ msg,
          version = None, backupId = None, enabled = None\<rparr> \<and>
       lookup_entry (snd (install_extension env fs request metadata))
         (request_extensionId request) =
           (case residue of None \<Rightarrow> Some (Dir old) | Some n \<Rightarrow> Some n))"
proof (intro conjI impI)
  let ?X = "request_extensionId request"
  let ?bid = "?X @ ''_'' @ ''before_install'' @ ''_'' @ strftime (now env)"
  let ?fs1 = "fs\<lparr>backup_dir := AList.update ?bid (Dir old) (backup_dir fs)\<rparr>"
  have old1: "lookup_entry ?fs1 ?X = Some (Dir old)"
    using old by simp
  {
    assume a: "map_of (backup_dir fs) ?bid = None \<and> copytree_fault env = None \<and>
      rmtree_fault env = None \<and> clone_from env (repository metadata) = Inl (msg, residue)"
    then have free: "map_of (backup_dir fs) ?bid = None" and cp: "copytree_fault env = None"
      and rm: "rmtree_fault env = None"
      and c: "clone_from env (repository metadata) = Inl (msg, residue)"
      by simp_all
    have b: "backup_existing env fs ?X = (Inr (), ?fs1)"
      using old free cp by (rule backup_existing_copies)
    have g: "git_clone_extension env F (repository metadata) ?X (request_version request) =
        (Inl (HTTPException 500 (''Git clone failed: '' @ msg)),
         left_behind env
           (F\<lparr>extensions_dir := Some (Dir (AList.delete ?X (entries (extensions_dir F))))\<rparr>)
           ?X residue)"
      if "lookup_entry F ?X = Some (Dir old)" for F
      by (simp add: git_clone_extension_def git_clone_try_existing [OF that rm] c)
    have m: "materialize env ?fs1 request metadata =
        (Inl (HTTPException 500 (''Git clone failed: '' @ msg)),
         left_behind env
           (?fs1\<lparr>extensions_dir := Some (Dir (AList.delete ?X (entries (extensions_dir ?fs1))))\<rparr>)
           ?X residue)"
      by (simp only: materialize_git_clone [OF by_clone] g [OF old1])
    note i = install_extension_materialize_raised [OF b m]
    show "fst (install_extension env fs request metadata) =
         \<lparr>success = False, extensionId = ?X,
          message = ''Installation failed: 500: Git clone failed: '' @ msg,
          version = None, backupId = None, enabled = None\<rparr>"
      by (simp only: i fst_conv) (simp add: str_nat_500)
    show "lookup_entry (snd (install_extension env fs request metadata)) =
         (lookup_entry fs)(?X := residue)"
      by (simp only: i snd_conv lookup_entry_left_behind_gone lookup_entry_backup_dir)
    show "map_of (backup_dir (snd (install_extension env fs request metadata))) ?bid
           = Some (Dir old)"
      by (simp only: i snd_conv) (simp add: left_behind_frame update_conv')
  }
  {
    assume a: "rmtree_fault env = None \<and> clone_from env (repository metadata) = Inr tree"
    then have rm: "rmtree_fault env = None"
      and c: "clone_from env (repository metadata) = Inr tree"
      by simp_all
    let ?gone = "fs\<lparr>extensions_dir := Some (Dir (AList.delete ?X (entries (extensions_dir fs))))\<rparr>"
    let ?t = "case v of
                None \<Rightarrow> tree
              | Some ver \<Rightarrow>
                  if ver \<noteq> [] \<and> ver \<noteq> ''latest''
                  then (case git_checkout env ver tree of
                          Inl (m, left) \<Rightarrow> (case left of None \<Rightarrow> tree | Some t \<Rightarrow> t)
                        | Inr tree' \<Rightarrow> tree')
                  else tree"
    have g: "git_clone_extension env fs (repository metadata) ?X v = (Inr (), set_entry ?gone ?X ?t)"
      by (simp add: git_clone_extension_def git_clone_try_existing [OF old rm] c)
    have l: "lookup_entry (snd (git_clone_extension env fs (repository metadata) ?X v))
         = (lookup_entry fs)(?X \<mapsto> ?t)"
      by (simp only: g snd_conv lookup_entry_set_entry lookup_entry_deleted) simp
    have k: "?t = tree \<or>
             (\<exists>ver. v = Some ver \<and>
                (git_checkout env ver tree = Inr ?t \<or>
                 (\<exists>m. git_checkout env ver tree = Inl (m, Some ?t))))"
      by (auto split: option.splits sum.splits prod.splits)
    from g l k
    show "\<exists>t. git_clone_extension env fs (repository metadata) ?X v = (Inr (), set_entry ?gone ?X t) \<and>
            lookup_entry (snd (git_clone_extension env fs (repository metadata) ?X v))
              = (lookup_entry fs)(?X \<mapsto> t) \<and>
            (t = tree \<or>
             (\<exists>ver. v = Some ver \<and>
                (git_checkout env ver tree = Inr t \<or>
                 (\<exists>m. git_checkout env ver tree = Inl (m, Some t)))))"
      by blast
  }
  {
    assume "shutil_copytree env (Dir old) (backup_dir fs) ?bid = (Inl e, backups)"
    with old have "backup_existing env fs ?X = (Inl e, fs\<lparr>backup_dir := backups\<rparr>)"
      by (rule backup_existing_raises)
    then show "install_extension env fs request metadata =
         (\<lparr>success = False, extensionId = ?X,
           message = ''Installation failed: '' @ str_exn e,
           version = None, backupId = None, enabled = None\<rparr>,
          fs\<lparr>backup_dir := backups\<rparr>)"
      by (rule install_extension_backup_raised)
  }
  {
    assume a: "map_of (backup_dir fs) ?bid = None \<and> copytree_fault env = None \<and>
      rmtree_fault env = Some (msg, residue)"
    then have free: "map_of (backup_dir fs) ?bid = None" and cp: "copytree_fault env = None"
      and rm: "rmtree_fault env = Some (msg, residue)"
      by simp_all
    have b: "backup_existing env fs ?X = (Inr (), ?fs1)"
      using old free cp by (rule backup_existing_copies)
    have g: "git_clone_extension env F (repository metadata) ?X (request_version request) =
        (Inl (HTTPException 500 (''Git clone failed: '' @ msg)), left_behind env F ?X residue)"
      if "lookup_entry F ?X = Some (Dir old)" for F
      using that rm
      by (simp add: git_clone_extension_def git_clone_try_def os_path_exists_def
          shutil_rmtree_def)
    have m: "materialize env ?fs1 request metadata =
        (Inl (HTTPException 500 (''Git clone failed: '' @ msg)), left_behind env ?fs1 ?X residue)"
      by (simp only: materialize_git_clone [OF by_clone] g [OF old1])
    note i = install_extension_materialize_raised [OF b m]
    show "fst (install_extension env fs request metadata) =
         \<lparr>success = False, extensionId = ?X,
          message = ''Installation failed: 500: Git clone failed: '' @ msg,
          version = None, backupId = None, enabled = None\<rparr>"
      by (simp only: i fst_conv) (simp add: str_nat_500)
    obtain es where "extensions_dir ?fs1 = Some (Dir es)"
      using lookup_entry_root [OF old1] by blast
    from lookup_entry_left_behind [OF this, of env ?X residue]
    show "lookup_entry (snd (install_extension env fs request metadata)) ?X =
           (case residue of None \<Rightarrow> Some (Dir old) | Some n \<Rightarrow> Some n)"
      by (simp only: i snd_conv old1)
  }
qed

theorem git_clone_removes_old_directory_first_witness:
  "filesystem_safe (request_extensionId foo_request) \<and>
   installMethod (foo_metadata ''git_clone'') = ''git_clone'' \<and>
   lookup_entry sample_fs (request_extensionId foo_request) =
     Some (Dir [(''install.py'', File ''pass'')]) \<and>
   copytree_fault offline_env = None \<and> rmtree_fault offline_env = None \<and>
   clone_from offline_env (repository (foo_metadata ''git_clone'')) =
     Inl (''fatal: unable to access the repository'', None) \<and>
   fst (install_extension offline_env sample_fs foo_request (foo_metadata ''git_clone'')) =
     \<lparr>success = False, extensionId = ''foo'',
      message = ''Installation failed: 500: Git clone failed: fatal: unable to access the repository'',
      version = None, backupId = None, enabled = None\<rparr> \<and>
   lookup_entry (snd (install_extension offline_env sample_fs foo_request
                        (foo_metadata ''git_clone''))) ''foo'' = None \<and>
   map_of (backup_dir (snd (install_extension offline_env sample_fs foo_request
                        (foo_metadata ''git_clone'')))) ''foo_before_install_20240309_070542'' =
     Some (Dir [(''install.py'', File ''pass'')])"
proof -
  have n: "strftime (now offline_env) = ''20240309_070542''"
    using strftime_now by (simp add: offline_env_def quiet_env_def)
  have i: "request_extensionId foo_request = ''foo''"
    "installMethod (foo_metadata ''git_clone'') = ''git_clone''"
    by (simp_all add: foo_request_def foo_metadata_def)
  have h: "filesystem_safe (request_extensionId foo_request)"
    "installMethod (foo_metadata ''git_clone'') = ''git_clone''"
    "lookup_entry sample_fs (request_extensionId foo_request) =
       Some (Dir [(''install.py'', File ''pass'')])"
    by (simp_all add: i filesystem_safe_def) (simp add: tree_defs sample_fs_def)
  have k: "copytree_fault offline_env = None" "rmtree_fault offline_env = None"
    by (simp_all add: offline_env_def quiet_env_def)
  have c: "clone_from offline_env (repository (foo_metadata ''git_clone'')) =
     Inl (''fatal: unable to access the repository'', None)"
    by (simp add: offline_env_def)
  have a: "map_of (backup_dir sample_fs)
       (request_extensionId foo_request @ ''_'' @ ''before_install'' @ ''_'' @
        strftime (now offline_env)) = None \<and>
     copytree_fault offline_env = None \<and> rmtree_fault offline_env = None \<and>
     clone_from offline_env (repository (foo_metadata ''git_clone'')) =
       Inl (''fatal: unable to access the repository'', None)"
    by (simp only: k c simp_thms) (simp add: sample_fs_def)
  note t = git_clone_removes_old_directory_first [OF h, where env = offline_env,
      THEN conjunct1, THEN mp, OF a]
  have r: "fst (install_extension offline_env sample_fs foo_request (foo_metadata ''git_clone'')) =
     \<lparr>success = False, extensionId = ''foo'',
      message = ''Installation failed: 500: Git clone failed: fatal: unable to access the repository'',
      version = None, backupId = None, enabled = None\<rparr>"
    using t [THEN conjunct1] by (simp add: i)
  have g: "lookup_entry (snd (install_extension offline_env sample_fs foo_request
                        (foo_metadata ''git_clone''))) ''foo'' = None"
    using t [THEN conjunct2, THEN conjunct1] by (simp add: i)
  have p: "map_of (backup_dir (snd (install_extension offline_env sample_fs foo_request
                        (foo_metadata ''git_clone'')))) ''foo_before_install_20240309_070542'' =
     Some (Dir [(''install.py'', File ''pass'')])"
    using t [THEN conjunct2, THEN conjunct2] by (simp add: i n)
  show ?thesis
    by (simp only: h k c r g p simp_thms)
qed

text \<open>
  Claim C9. Let the backup step and the materialisation (clone or download) return, and
  let the target hold an \<^verbatim>\<open>install.py\<close>. If running it raises \<^verbatim>\<open>TimeoutExpired\<close>
  (the 300 seconds are over) or \<^verbatim>\<open>CalledProcessError\<close> (exit status not 0),
  \<^verbatim>\<open>install_extension\<close> still returns the success result; the tree is what the script
  left.
\<close>

theorem install_succeeds_despite_script_failure:
  assumes safe: "filesystem_safe (request_extensionId request)"
    and b: "backup_existing env fs (request_extensionId request) = (Inr (), fs1)"
    and m: "materialize env fs1 request metadata = (Inr (), fs2)"
    and script: "install_script_exists fs2 (request_extensionId request)"
    and bad: "subprocess_run env (request_extensionId request) fs2 = (Inl (TimeoutExpired msg), fs3) \<or>
              subprocess_run env (request_extensionId request) fs2 = (Inl (CalledProcessError msg), fs3)"
  shows "install_extension env fs request metadata =
     (\<lparr>success = True, extensionId = request_extensionId request,
       message = ''Successfully installed '' @ metadata_name metadata,
       version = Some (resolved_version request metadata),
       backupId = None, enabled = None\<rparr>, fs3)"
  using b m script configure_extension_script_warning [OF bad]
  by (simp add: install_extension_def install_try_def)

theorem install_succeeds_despite_script_failure_witness:
  "filesystem_safe (request_extensionId foo_request) \<and>
   backup_existing slow_script_env no_extensions_fs (request_extensionId foo_request) =
     (Inr (), no_extensions_fs) \<and>
   materialize slow_script_env no_extensions_fs foo_request (foo_metadata ''git_clone'') =
     (Inr (), installed_fs) \<and>
   install_script_exists installed_fs (request_extensionId foo_request) \<and>
   subprocess_run slow_script_env (request_extensionId foo_request) installed_fs =
     (Inl (TimeoutExpired ''timed out after 300 seconds''), installed_fs) \<and>
   install_extension slow_script_env no_extensions_fs foo_request (foo_metadata ''git_clone'') =
     (\<lparr>success = True, extensionId = ''foo'', message = ''Successfully installed Foo'',
       version = Some ''1.0'', backupId = None, enabled = None\<rparr>, installed_fs) \<and>
   subprocess_run failing_script_env (request_extensionId foo_request) installed_fs =
     (Inl (CalledProcessError ''returned non-zero exit status 1''), installed_fs) \<and>
   install_extension failing_script_env no_extensions_fs foo_request (foo_metadata ''git_clone'') =
     (\<lparr>success = True, extensionId = ''foo'', message = ''Successfully installed Foo'',
       version = Some ''1.0'', backupId = None, enabled = None\<rparr>, installed_fs)"
proof -
  have i: "request_extensionId foo_request = ''foo''"
    "metadata_name (foo_metadata ''git_clone'') = ''Foo''"
    "resolved_version foo_request (foo_metadata ''git_clone'') = ''1.0''"
    by (simp_all add: foo_request_def foo_metadata_def resolved_version_def)
  have safe: "filesystem_safe (request_extensionId foo_request)"
    by (simp add: i filesystem_safe_def)
  have b: "backup_existing e no_extensions_fs (request_extensionId foo_request) =
      (Inr (), no_extensions_fs)" for e
    by (simp add: i backup_existing_def tree_defs no_extensions_fs_def)
  have m: "materialize (quiet_env\<lparr>subprocess_run := f\<rparr>) no_extensions_fs foo_request
      (foo_metadata ''git_clone'') = (Inr (), installed_fs)" for f
    by (simp add: materialize_def git_clone_extension_def git_clone_try_def put_entry_def
        set_entry_def foo_request_def foo_metadata_def tree_defs no_extensions_fs_def
        installed_fs_def quiet_env_def)
  have s: "install_script_exists installed_fs (request_extensionId foo_request)"
    by (simp add: i install_script_exists_def tree_defs installed_fs_def)
  have r1: "subprocess_run slow_script_env (request_extensionId foo_request) installed_fs =
      (Inl (TimeoutExpired ''timed out after 300 seconds''), installed_fs)"
    by (simp add: slow_script_env_def)
  have r2: "subprocess_run failing_script_env (request_extensionId foo_request) installed_fs =
      (Inl (CalledProcessError ''returned non-zero exit status 1''), installed_fs)"
    by (simp add: failing_script_env_def)
  have m1: "materialize slow_script_env no_extensions_fs foo_request
      (foo_metadata ''git_clone'') = (Inr (), installed_fs)"
    unfolding slow_script_env_def by (rule m)
  have m2: "materialize failing_script_env no_extensions_fs foo_request
      (foo_metadata ''git_clone'') = (Inr (), installed_fs)"
    unfolding failing_script_env_def by (rule m)
  have c1: "install_extension slow_script_env no_extensions_fs foo_request
      (foo_metadata ''git_clone'') =
     (\<lparr>success = True, extensionId = ''foo'', message = ''Successfully installed Foo'',
       version = Some ''1.0'', backupId = None, enabled = None\<rparr>, installed_fs)"
    using install_succeeds_despite_script_failure [OF safe b m1 s disjI1 [OF r1]]
    by (simp add: i)
  have c2: "install_extension failing_script_env no_extensions_fs foo_request
      (foo_metadata ''git_clone'') =
     (\<lparr>success = True, extensionId = ''foo'', message = ''Successfully installed Foo'',
       version = Some ''1.0'', backupId = None, enabled = None\<rparr>, installed_fs)"
    using install_succeeds_despite_script_failure [OF safe b m2 s disjI2 [OF r2]]
    by (simp add: i)
  show ?thesis
    by (simp only: safe b m1 s r1 r2 c1 c2 simp_thms)
qed

subsection \<open>Scan\<close>

text \<open>
  Claim C5. Without an extensions directory the scan returns the empty list. Otherwise
  the identifiers of the entries it returns are, in the order of the listing, the names
  of the entries of the extensions directory that are directories, do not begin with
  \<^verbatim>\<open>.\<close>, and have a valid structure; every other entry is skipped. A directory has a
  valid structure exactly when it holds an entry \<^verbatim>\<open>install.py\<close>, a directory
  \<^verbatim>\<open>scripts\<close>, an entry \<^verbatim>\<open>__init__.py\<close> or an entry \<^verbatim>\<open>README.md\<close> (the code
  asks \<^verbatim>\<open>os.path.exists\<close> for each; \<^verbatim>\<open>scripts/\<close> ends in a slash and so has to be
  a directory).
\<close>

theorem scan_lists_valid_subdirectories:
  "(extensions_dir fs = None \<longrightarrow> scan_installed_extensions env fs = [])
   \<and> map ext_id (scan_installed_extensions env fs) =
       filter (\<lambda>item. is_dir (lookup_entry fs item) \<and> \<not> startswith item ''.'' \<and>
                       has_valid_structure (children_of fs item))
         (map fst (entries (extensions_dir fs)))
   \<and> (has_valid_structure children \<longleftrightarrow>
        (map_of children ''install.py'' \<noteq> None \<or> is_dir (map_of children ''scripts'') \<or>
         map_of children ''__init__.py'' \<noteq> None \<or> map_of children ''README.md'' \<noteq> None))"
proof (intro conjI impI)
  assume "extensions_dir fs = None"
  then show "scan_installed_extensions env fs = []"
    by (simp add: scan_installed_extensions_def)
next
  show "map ext_id (scan_installed_extensions env fs) =
       filter (\<lambda>item. is_dir (lookup_entry fs item) \<and> \<not> startswith item ''.'' \<and>
                       has_valid_structure (children_of fs item))
         (map fst (entries (extensions_dir fs)))"
  proof (cases "extensions_dir fs")
    case None
    then show ?thesis
      by (simp add: scan_installed_extensions_def entries_def)
  next
    case (Some root)
    then show ?thesis
      by (cases root)
        (simp_all add: scan_installed_extensions_def os_listdir_def entries_def scan_loop_ids)
  qed
next
  show "has_valid_structure children \<longleftrightarrow>
        (map_of children ''install.py'' \<noteq> None \<or> is_dir (map_of children ''scripts'') \<or>
         map_of children ''__init__.py'' \<noteq> None \<or> map_of children ''README.md'' \<noteq> None)"
    by (rule has_valid_structure_iff)
qed

theorem scan_lists_valid_subdirectories_witness:
  "extensions_dir no_extensions_fs = None \<and>
   scan_installed_extensions quiet_env no_extensions_fs = [] \<and>
   map fst (entries (extensions_dir sample_fs)) = [''foo'', ''.git'', ''bar'', ''notes.txt''] \<and>
   map ext_id (scan_installed_extensions quiet_env sample_fs) = [''foo'']"
proof -
  have a: "extensions_dir no_extensions_fs = None"
    by (simp add: no_extensions_fs_def)
  have b: "scan_installed_extensions quiet_env no_extensions_fs = []"
    using scan_lists_valid_subdirectories [of no_extensions_fs quiet_env "[]",
        THEN conjunct1, THEN mp, OF a] .
  have c: "map fst (entries (extensions_dir sample_fs)) = [''foo'', ''.git'', ''bar'', ''notes.txt'']"
    by (simp add: sample_fs_def entries_def)
  have d: "map ext_id (scan_installed_extensions quiet_env sample_fs) = [''foo'']"
    using scan_lists_valid_subdirectories [of sample_fs quiet_env "[]",
        THEN conjunct2, THEN conjunct1]
    by (simp add: c)
      (simp add: has_valid_structure_iff children_of_def lookup_entry_def entries_def sample_fs_def)
  show ?thesis
    by (simp only: a b c d simp_thms)
qed

subsection \<open>No exception leaves an operation\<close>

text \<open>
  Claim C1. Each of \<^verbatim>\<open>install_extension\<close>, \<^verbatim>\<open>uninstall_extension\<close> and
  \<^verbatim>\<open>toggle_extension\<close> is the body of its \<^verbatim>\<open>try\<close> followed by the handler
  \<^verbatim>\<open>except Exception\<close>, and returns a result for every input:
  \<^item> whatever exception \<open>e\<close> the body raises, at whichever step, the operation returns
    the failure result whose message is the operation's prefix and \<^verbatim>\<open>str(e)\<close>, with
    the tree as the failed step left it;
  \<^item> what the body returns is returned as it is; from the bodies of install and toggle
    that is always a success (the body of uninstall also returns the failure
    \<^verbatim>\<open>Extension not found\<close>);
  \<^item> a result that is not a success has a message;
  \<^item> the body raises what any of its steps raises: the backup, the materialisation and
    the configuration of an install; the backup and the removal of an uninstall; the
    rename of a toggle.
\<close>

theorem operations_catch_every_exception:
  "(\<forall>e fs'. install_try env fs request metadata = (Inl e, fs') \<longrightarrow>
       install_extension env fs request metadata =
         (\<lparr>success = False, extensionId = request_extensionId request,
           message = ''Installation failed: '' @ str_exn e,
           version = None, backupId = None, enabled = None\<rparr>, fs'))
   \<and> (\<forall>r fs'. install_try env fs request metadata = (Inr r, fs') \<longrightarrow>
       install_extension env fs request metadata = (r, fs') \<and> success r)
   \<and> (\<not> success (fst (install_extension env fs request metadata)) \<longrightarrow>
       message (fst (install_extension env fs request metadata)) \<noteq> [])
   \<and> (\<forall>e fs'. uninstall_try env fs X = (Inl e, fs') \<longrightarrow>
       uninstall_extension env fs X =
         (\<lparr>success = False, extensionId = X,
           message = ''Uninstallation failed: '' @ str_exn e,
           version = None, backupId = None, enabled = None\<rparr>, fs'))
   \<and> (\<forall>r fs'. uninstall_try env fs X = (Inr r, fs') \<longrightarrow>
       uninstall_extension env fs X = (r, fs'))
   \<and> (\<not> success (fst (uninstall_extension env fs X)) \<longrightarrow>
       message (fst (uninstall_extension env fs X)) \<noteq> [])
   \<and> (\<forall>e fs'. toggle_try env fs X b = (Inl e, fs') \<longrightarrow>
       toggle_extension env fs X b =
         (\<lparr>success = False, extensionId = X,
           message = ''Toggle failed: '' @ str_exn e,
           version = None, backupId = None, enabled = None\<rparr>, fs'))
   \<and> (\<forall>r fs'. toggle_try env fs X b = (Inr r, fs') \<longrightarrow>
       toggle_extension env fs X b = (r, fs') \<and> success r)
   \<and> (\<not> success (fst (toggle_extension env fs X b)) \<longrightarrow>
       message (fst (toggle_extension env fs X b)) \<noteq> [])
   \<and> (\<forall>e fs1. backup_existing env fs (request_extensionId request) = (Inl e, fs1) \<longrightarrow>
       install_try env fs request metadata = (Inl e, fs1))
   \<and> (\<forall>e fs1 fs2. backup_existing env fs (request_extensionId request) = (Inr (), fs1) \<and>
       materialize env fs1 request metadata = (Inl e, fs2) \<longrightarrow>
       install_try env fs request metadata = (Inl e, fs2))
   \<and> (\<forall>e fs1 fs2 fs3. backup_existing env fs (request_extensionId request) = (Inr (), fs1) \<and>
       materialize env fs1 request metadata = (Inr (), fs2) \<and>
       configure_extension env fs2 (request_extensionId request) = (Inl e, fs3) \<longrightarrow>
       install_try env fs request metadata = (Inl e, fs3))
   \<and> (\<forall>e fs1. os_path_exists fs X \<and>
       create_backup env fs X ''before_uninstall'' = (Inl e, fs1) \<longrightarrow>
       uninstall_try env fs X = (Inl e, fs1))
   \<and> (\<forall>e backup_id fs1 fs2. os_path_exists fs X \<and>
       create_backup env fs X ''before_uninstall'' = (Inr backup_id, fs1) \<and>
       shutil_rmtree env fs1 X = (Inl e, fs2) \<longrightarrow>
       uninstall_try env fs X = (Inl e, fs2))
   \<and> (\<forall>e. startswith X ''disabled_'' \<and> os_rename env fs X (drop 9 X) = Inl e \<longrightarrow>
       toggle_try env fs X True = (Inl e, fs))
   \<and> (\<forall>e. \<not> startswith X ''disabled_'' \<and>
       os_rename env fs X (''disabled_'' @ X) = Inl e \<longrightarrow>
       toggle_try env fs X False = (Inl e, fs))"
proof -
  have install: "message (fst (install_extension env fs request metadata)) \<noteq> []"
    if "\<not> success (fst (install_extension env fs request metadata))"
  proof (cases "install_try env fs request metadata")
    case (Pair o' fs')
    with that show ?thesis
      by (cases o') (simp_all add: install_extension_def install_try_returns_success)
  qed
  have uninstall: "message (fst (uninstall_extension env fs X)) \<noteq> []"
  proof (cases "uninstall_try env fs X")
    case (Pair o' fs')
    then show ?thesis
      by (cases o') (simp_all add: uninstall_extension_def uninstall_try_returns_message)
  qed
  have toggle: "message (fst (toggle_extension env fs X b)) \<noteq> []"
    if "\<not> success (fst (toggle_extension env fs X b))"
  proof (cases "toggle_try env fs X b")
    case (Pair o' fs')
    with that show ?thesis
      by (cases o') (simp_all add: toggle_extension_def toggle_try_returns_success)
  qed
  have steps:
    "(\<forall>e fs1. backup_existing env fs (request_extensionId request) = (Inl e, fs1) \<longrightarrow>
       install_try env fs request metadata = (Inl e, fs1))
     \<and> (\<forall>e fs1 fs2. backup_existing env fs (request_extensionId request) = (Inr (), fs1) \<and>
       materialize env fs1 request metadata = (Inl e, fs2) \<longrightarrow>
       install_try env fs request metadata = (Inl e, fs2))
     \<and> (\<forall>e fs1 fs2 fs3. backup_existing env fs (request_extensionId request) = (Inr (), fs1) \<and>
       materialize env fs1 request metadata = (Inr (), fs2) \<and>
       configure_extension env fs2 (request_extensionId request) = (Inl e, fs3) \<longrightarrow>
       install_try env fs request metadata = (Inl e, fs3))
     \<and> (\<forall>e fs1. os_path_exists fs X \<and>
       create_backup env fs X ''before_uninstall'' = (Inl e, fs1) \<longrightarrow>
       uninstall_try env fs X = (Inl e, fs1))
     \<and> (\<forall>e backup_id fs1 fs2. os_path_exists fs X \<and>
       create_backup env fs X ''before_uninstall'' = (Inr backup_id, fs1) \<and>
       shutil_rmtree env fs1 X = (Inl e, fs2) \<longrightarrow>
       uninstall_try env fs X = (Inl e, fs2))
     \<and> (\<forall>e. startswith X ''disabled_'' \<and> os_rename env fs X (drop 9 X) = Inl e \<longrightarrow>
       toggle_try env fs X True = (Inl e, fs))
     \<and> (\<forall>e. \<not> startswith X ''disabled_'' \<and>
       os_rename env fs X (''disabled_'' @ X) = Inl e \<longrightarrow>
       toggle_try env fs X False = (Inl e, fs))"
    by (simp add: install_try_def uninstall_try_def toggle_try_def)
  have wrapped:
    "(\<forall>e fs'. install_try env fs request metadata = (Inl e, fs') \<longrightarrow>
       install_extension env fs request metadata =
         (\<lparr>success = False, extensionId = request_extensionId request,
           message = ''Installation failed: '' @ str_exn e,
           version = None, backupId = None, enabled = None\<rparr>, fs'))
     \<and> (\<forall>r fs'. install_try env fs request metadata = (Inr r, fs') \<longrightarrow>
       install_extension env fs request metadata = (r, fs') \<and> success r)
     \<and> (\<not> success (fst (install_extension env fs request metadata)) \<longrightarrow>
       message (fst (install_extension env fs request metadata)) \<noteq> [])
     \<and> (\<forall>e fs'. uninstall_try env fs X = (Inl e, fs') \<longrightarrow>
       uninstall_extension env fs X =
         (\<lparr>success = False, extensionId = X,
           message = ''Uninstallation failed: '' @ str_exn e,
           version = None, backupId = None, enabled = None\<rparr>, fs'))
     \<and> (\<forall>r fs'. uninstall_try env fs X = (Inr r, fs') \<longrightarrow>
       uninstall_extension env fs X = (r, fs'))
     \<and> (\<not> success (fst (uninstall_extension env fs X)) \<longrightarrow>
       message (fst (uninstall_extension env fs X)) \<noteq> [])
     \<and> (\<forall>e fs'. toggle_try env fs X b = (Inl e, fs') \<longrightarrow>
       toggle_extension env fs X b =
         (\<lparr>success = False, extensionId = X,
           message = ''Toggle failed: '' @ str_exn e,
           version = None, backupId = None, enabled = None\<rparr>, fs'))
     \<and> (\<forall>r fs'. toggle_try env fs X b = (Inr r, fs') \<longrightarrow>
       toggle_extension env fs X b = (r, fs') \<and> success r)
     \<and> (\<not> success (fst (toggle_extension env fs X b)) \<longrightarrow>
       message (fst (toggle_extension env fs X b)) \<noteq> [])"
    using install uninstall toggle
    by (simp add: install_extension_def uninstall_extension_def toggle_extension_def
        install_try_returns_success toggle_try_returns_success)
  from conjI [OF wrapped steps] show ?thesis
    by (simp only: conj_assoc)
qed

theorem operations_catch_every_exception_witness:
  "install_try offline_env sample_fs foo_request (foo_metadata ''git_clone'') =
     (Inl (HTTPException 500 ''Git clone failed: fatal: unable to access the repository''),
      snd (install_extension offline_env sample_fs foo_request (foo_metadata ''git_clone''))) \<and>
   fst (install_extension offline_env sample_fs foo_request (foo_metadata ''git_clone'')) =
     \<lparr>success = False, extensionId = ''foo'',
      message = ''Installation failed: 500: Git clone failed: fatal: unable to access the repository'',
      version = None, backupId = None, enabled = None\<rparr> \<and>
   uninstall_try disk_full_env sample_fs ''foo'' =
     (Inl (OtherException ''[Errno 28] No space left on device''), sample_fs) \<and>
   uninstall_extension disk_full_env sample_fs ''foo'' =
     (\<lparr>success = False, extensionId = ''foo'',
       message = ''Uninstallation failed: [Errno 28] No space left on device'',
       version = None, backupId = None, enabled = None\<rparr>, sample_fs) \<and>
   toggle_try quiet_env sample_fs ''ghost'' False =
     (Inl (OSError FileNotFoundError ''[Errno 2] No such file or directory''), sample_fs) \<and>
   toggle_extension quiet_env sample_fs ''ghost'' False =
     (\<lparr>success = False, extensionId = ''ghost'',
       message = ''Toggle failed: [Errno 2] No such file or directory'',
       version = None, backupId = None, enabled = None\<rparr>, sample_fs)"
proof -
  note all = operations_catch_every_exception
  have i: "request_extensionId foo_request = ''foo''"
    by (simp add: foo_request_def)
  have t3: "toggle_try quiet_env sample_fs ''ghost'' False =
     (Inl (OSError FileNotFoundError ''[Errno 2] No such file or directory''), sample_fs)"
    by (simp add: toggle_try_def os_rename_def tree_defs sample_fs_def quiet_env_def)
  have c3: "toggle_extension quiet_env sample_fs ''ghost'' False =
     (\<lparr>success = False, extensionId = ''ghost'',
       message = ''Toggle failed: [Errno 2] No such file or directory'',
       version = None, backupId = None, enabled = None\<rparr>, sample_fs)"
    using all [where env = quiet_env and fs = sample_fs and X = "''ghost''" and b = False,
        THEN conjunct2, THEN conjunct2, THEN conjunct2, THEN conjunct2, THEN conjunct2,
        THEN conjunct2, THEN conjunct1, THEN spec, THEN spec, THEN mp, OF t3]
    by simp
  have n: "strftime (now disk_full_env) = ''20240309_070542''"
    using strftime_now by (simp add: disk_full_env_def quiet_env_def)
  have t2: "uninstall_try disk_full_env sample_fs ''foo'' =
     (Inl (OtherException ''[Errno 28] No space left on device''), sample_fs)"
    by (simp add: uninstall_try_def create_backup_def shutil_copytree_def Let_def
        strftime_def str_nat.simps digit_char_def zfill_def
        tree_defs sample_fs_def disk_full_env_def quiet_env_def)
  have c2: "uninstall_extension disk_full_env sample_fs ''foo'' =
     (\<lparr>success = False, extensionId = ''foo'',
       message = ''Uninstallation failed: [Errno 28] No space left on device'',
       version = None, backupId = None, enabled = None\<rparr>, sample_fs)"
    using all [where env = disk_full_env and fs = sample_fs and X = "''foo''",
        THEN conjunct2, THEN conjunct2, THEN conjunct2, THEN conjunct1,
        THEN spec, THEN spec, THEN mp, OF t2]
    by simp
  obtain e fs' where t1: "install_try offline_env sample_fs foo_request
      (foo_metadata ''git_clone'') = (e, fs')"
    by (cases "install_try offline_env sample_fs foo_request (foo_metadata ''git_clone'')")
  have n': "strftime (now offline_env) = ''20240309_070542''"
    using strftime_now by (simp add: offline_env_def quiet_env_def)
  have e: "e = Inl (HTTPException 500 ''Git clone failed: fatal: unable to access the repository'')"
    using t1
    by (simp add: install_try_def backup_existing_def create_backup_def shutil_copytree_def
        Let_def materialize_def git_clone_extension_def git_clone_try_def shutil_rmtree_def
        left_behind_def foo_request_def foo_metadata_def
        strftime_def str_nat.simps digit_char_def zfill_def
        tree_defs sample_fs_def offline_env_def quiet_env_def)
  have c1: "install_extension offline_env sample_fs foo_request (foo_metadata ''git_clone'') =
     (\<lparr>success = False, extensionId = ''foo'',
       message = ''Installation failed: 500: Git clone failed: fatal: unable to access the repository'',
       version = None, backupId = None, enabled = None\<rparr>, fs')"
    using all [where env = offline_env and fs = sample_fs and request = foo_request
          and metadata = "foo_metadata ''git_clone''",
        THEN conjunct1, THEN spec, THEN spec, THEN mp, OF t1 [unfolded e]]
    by (simp add: i str_nat_500)
  show ?thesis
    by (simp only: t1 e c1 t2 c2 t3 c3 fst_conv snd_conv simp_thms)
qed

end
